theory Spec2Isabelle
  imports Main "HOL-Library.Multiset"
begin

section \<open>JavaScript values\<close>

text \<open>
  The submit handlers pass values of type \<^verbatim>\<open>unknown\<close> to \<^verbatim>\<open>normalizeFieldValue\<close>.
  They are modelled as JSON-like values: plain objects are association lists from
  attribute names to values (no prototype chain, no getters), numbers are the integers
  (a number is falsy exactly when it is \<open>0\<close>; fractions, infinities and \<^verbatim>\<open>NaN\<close> are
  outside the model), and a string is a list of characters.
\<close>

datatype jsval =
    Undefined
  | Null
  | Bool bool
  | Num int
  | Str string
  | Arr "jsval list"
  | Obj "(string \<times> jsval) list"

text \<open>\<^verbatim>\<open>Boolean(v)\<close>, the truthiness that \<^verbatim>\<open>!v\<close> negates.\<close>

fun truthy :: "jsval \<Rightarrow> bool" where
  "truthy Undefined = False"
| "truthy Null = False"
| "truthy (Bool b) = b"
| "truthy (Num n) = (n \<noteq> 0)"
| "truthy (Str s) = (s \<noteq> [])"
| "truthy (Arr xs) = True"
| "truthy (Obj kvs) = True"

text \<open>\<^verbatim>\<open>typeof v === 'object'\<close>: arrays, plain objects and \<^verbatim>\<open>null\<close>.\<close>

fun typeof_object :: "jsval \<Rightarrow> bool" where
  "typeof_object Null = True"
| "typeof_object (Arr xs) = True"
| "typeof_object (Obj kvs) = True"
| "typeof_object v = False"

text \<open>
  Attribute access \<^verbatim>\<open>v.k\<close> on an object value; an attribute listed twice has the
  value of its first entry. An array has none of the attributes that
  \<^verbatim>\<open>toPrimitiveValue\<close> asks for (value, id, key, name, label).
\<close>

fun attr :: "jsval \<Rightarrow> string \<Rightarrow> jsval" where
  "attr (Obj kvs) k = (case map_of kvs k of None \<Rightarrow> Undefined | Some v \<Rightarrow> v)"
| "attr v k = Undefined"

text \<open>The nullish coalescing operator \<^verbatim>\<open>a ?? b\<close>.\<close>

definition nullish :: "jsval \<Rightarrow> bool" where
  "nullish v = (v = Undefined \<or> v = Null)"

definition coalesce :: "jsval \<Rightarrow> jsval \<Rightarrow> jsval" where
  "coalesce a b = (if nullish a then b else a)"

subsection \<open>Conversion to string\<close>

definition digit_char :: "nat \<Rightarrow> char" where
  "digit_char d = char_of (48 + d)"

function dec_nat :: "nat \<Rightarrow> string" where
  "dec_nat n = (if n < 10 then [digit_char n] else dec_nat (n div 10) @ [digit_char (n mod 10)])"
  by pat_completeness auto
termination
  by (relation "measure (\<lambda>n. n)") auto

declare dec_nat.simps [simp del]

definition dec_int :: "int \<Rightarrow> string" where
  "dec_int i = (if i < 0 then CHR ''-'' # dec_nat (nat (- i)) else dec_nat (nat i))"

fun join_with :: "string \<Rightarrow> string list \<Rightarrow> string" where
  "join_with sep [] = []"
| "join_with sep [x] = x"
| "join_with sep (x # y # ys) = x @ sep @ join_with sep (y # ys)"

text \<open>
  \<^verbatim>\<open>String(v)\<close>. An array is joined with commas, a \<^verbatim>\<open>null\<close> or \<^verbatim>\<open>undefined\<close>
  element printing as the empty string; a plain object prints as \<^verbatim>\<open>[object Object]\<close>.
  A number of the model is an integer and prints in decimal digits, as JavaScript prints
  an integer of absolute value below \<^verbatim>\<open>1e21\<close>; from there on JavaScript prints in
  exponent notation, which the model does not cover, as it does not cover fractions.
\<close>

fun js_String :: "jsval \<Rightarrow> string" where
  "js_String Undefined = ''undefined''"
| "js_String Null = ''null''"
| "js_String (Bool b) = (if b then ''true'' else ''false'')"
| "js_String (Num n) = dec_int n"
| "js_String (Str s) = s"
| "js_String (Arr xs) =
     join_with '','' (map (\<lambda>x. if x = Undefined \<or> x = Null then [] else js_String x) xs)"
| "js_String (Obj kvs) = ''[object Object]''"

subsection \<open>String helpers\<close>

text \<open>
  White space as \<^verbatim>\<open>String.prototype.trim\<close> and the regular expression class
  \<^verbatim>\<open>\s\<close> see it, among the characters of the model (code units below 256): tab, line
  feed, vertical tab, form feed, carriage return, space and the no-break space.
\<close>

definition isWhiteSpace :: "char \<Rightarrow> bool" where
  "isWhiteSpace c = (of_char c \<in> {9, 10, 11, 12, 13, 32, 160 :: nat})"

definition trim :: "string \<Rightarrow> string" where
  "trim s = rev (dropWhile isWhiteSpace (rev (dropWhile isWhiteSpace s)))"

text \<open>\<^verbatim>\<open>s.split(',')\<close>: the segments between the separators; never an empty list.\<close>

fun split_acc :: "char \<Rightarrow> string \<Rightarrow> string \<Rightarrow> string list" where
  "split_acc c cur [] = [rev cur]"
| "split_acc c cur (x # xs) =
     (if x = c then rev cur # split_acc c [] xs else split_acc c (x # cur) xs)"

definition split :: "char \<Rightarrow> string \<Rightarrow> string list" where
  "split c s = split_acc c [] s"

section \<open>Form fields\<close>

datatype FieldType = Text | Number | Date | Select | Textarea | Multiselect

record FormFieldOption =
  olabel :: string
  ovalue :: string

text \<open>
  \<^verbatim>\<open>options\<close> is a flat array for a regular field and a record from the parent's value
  to an array for a dependent field.
\<close>

datatype FieldOptions =
    OptArray "FormFieldOption list"
  | OptRecord "(string \<times> FormFieldOption list) list"

datatype FieldValue = VString string | VStrings "string list"

record FormField =
  ftype :: FieldType
  label :: "string option"
  providerLabel :: "string option"
  fvalue :: FieldValue
  name :: string
  options :: "FieldOptions option"
  dependsOn :: "string option"
  metadata :: "jsval option"
  isFutureOnly :: "bool option"

section \<open>normalizeFieldValue.ts\<close>

definition toPrimitiveValue :: "jsval \<Rightarrow> jsval" where
  "toPrimitiveValue v =
     (if \<not> truthy v then Undefined
      else if typeof_object v then
        (let candidate =
           coalesce (attr v ''value'') (coalesce (attr v ''id'') (coalesce (attr v ''key'')
             (coalesce (attr v ''name'') (attr v ''label''))))
         in if \<not> truthy candidate then Undefined else candidate)
      else v)"

definition first_element :: "jsval list \<Rightarrow> jsval" where
  "first_element xs = (case xs of [] \<Rightarrow> Undefined | x # _ \<Rightarrow> x)"

definition normalizeFieldValue :: "FormField \<Rightarrow> jsval \<Rightarrow> jsval" where
  "normalizeFieldValue field v =
     (if \<not> truthy v then Undefined
      else if ftype field = Multiselect then
        (case v of
           Arr xs \<Rightarrow> Arr (map (\<lambda>x. Str (js_String x)) (filter truthy (map toPrimitiveValue xs)))
         | Str s \<Rightarrow> Arr (map Str (filter (\<lambda>x. x \<noteq> []) (map trim (split CHR '','' s))))
         | _ \<Rightarrow>
            (let primitive = toPrimitiveValue v
             in if primitive = Undefined then Arr [] else Arr [Str (js_String primitive)]))
      else if ftype field = Select then
        (let primitive = (case v of Arr xs \<Rightarrow> toPrimitiveValue (first_element xs)
                                   | _ \<Rightarrow> toPrimitiveValue v)
         in if primitive = Undefined then Str [] else Str (js_String primitive))
      else v)"

text \<open>A multiselect field and a select field, for the concrete evaluations below.\<close>

definition labelsField :: FormField where
  "labelsField = \<lparr>ftype = Multiselect, label = None, providerLabel = Some ''Labels'',
     fvalue = VStrings [], name = ''label_ids'', options = None, dependsOn = None,
     metadata = None, isFutureOnly = None\<rparr>"

definition ownerField :: FormField where
  "ownerField = \<lparr>ftype = Select, label = None, providerLabel = Some ''Owner'',
     fvalue = VString [], name = ''owner'', options = None, dependsOn = None,
     metadata = None, isFutureOnly = None\<rparr>"

section \<open>forms.ts: the ordering pass\<close>

text \<open>
  \<^verbatim>\<open>String.prototype.toLowerCase\<close> on the characters of the model: the letters A-Z
  and the upper-case letters of Latin-1 (192-222 but the multiplication sign 215) move up
  by 32, every other character stays.
\<close>

definition lowerChar :: "char \<Rightarrow> char" where
  "lowerChar c =
     (let n = (of_char c :: nat)
      in if (65 \<le> n \<and> n \<le> 90) \<or> (192 \<le> n \<and> n \<le> 222 \<and> n \<noteq> 215) then char_of (n + 32) else c)"

definition toLowerCase :: "string \<Rightarrow> string" where
  "toLowerCase s = map lowerChar s"

definition titleFieldNames :: "string list" where
  "titleFieldNames = [''title'', ''name'', ''subject'']"

definition isTitleField :: "FormField \<Rightarrow> bool" where
  "isTitleField field =
     (name field \<in> set titleFieldNames \<or> toLowerCase (name field) \<in> set titleFieldNames)"

text \<open>
  The table \<^verbatim>\<open>typePriority\<close>. The fallback \<^verbatim>\<open>?? 99\<close> of the comparator is never
  taken: the table has an entry for each of the six field types.
\<close>

fun typePriority :: "FieldType \<Rightarrow> int" where
  "typePriority Select = 2"
| "typePriority Multiselect = 3"
| "typePriority Text = 4"
| "typePriority Number = 5"
| "typePriority Date = 6"
| "typePriority Textarea = 7"

text \<open>\<^verbatim>\<open>f.dependsOn\<close> as a condition: a missing or empty parent name is falsy.\<close>

definition hasDependsOn :: "FormField \<Rightarrow> bool" where
  "hasDependsOn f = (case dependsOn f of None \<Rightarrow> False | Some p \<Rightarrow> p \<noteq> [])"

text \<open>\<^verbatim>\<open>Array.prototype.findIndex\<close>, with \<open>None\<close> for \<open>-1\<close>.\<close>

fun findIndex :: "('a \<Rightarrow> bool) \<Rightarrow> 'a list \<Rightarrow> nat option" where
  "findIndex P [] = None"
| "findIndex P (x # xs) = (if P x then Some 0 else map_option Suc (findIndex P xs))"

text \<open>
  The body of the \<^verbatim>\<open>forEach\<close> over the dependent fields: \<^verbatim>\<open>splice(parentIndex + 1, 0,
  depField)\<close> when a field of the parent's name is found, \<^verbatim>\<open>push\<close> otherwise.
\<close>

definition insertDependent :: "FormField list \<Rightarrow> FormField \<Rightarrow> FormField list" where
  "insertDependent sorted' depField =
     (case findIndex (\<lambda>f. Some (name f) = dependsOn depField) sorted' of
        Some parentIndex \<Rightarrow>
          take (parentIndex + 1) sorted' @ [depField] @ drop (parentIndex + 1) sorted'
      | None \<Rightarrow> sorted' @ [depField])"

text \<open>
  \<^verbatim>\<open>Array.prototype.sort\<close> is stable, and so is \<^const>\<open>sort_key\<close>: fields of equal
  priority keep their order.
\<close>

definition sortFieldsByPriority :: "FormField list \<Rightarrow> FormField list" where
  "sortFieldsByPriority fields' =
     (let titleFields = filter (\<lambda>f. \<not> hasDependsOn f \<and> isTitleField f) fields';
          independent = filter (\<lambda>f. \<not> hasDependsOn f \<and> \<not> isTitleField f) fields';
          dependent = filter hasDependsOn fields';
          sorted' = titleFields @ sort_key (\<lambda>f. typePriority (ftype f)) independent
      in foldl insertDependent sorted' dependent)"


text \<open>
  Two auxiliary notions for the statements about the ordering pass. \<open>insAfter\<close> puts
  an element after the first element that satisfies a predicate, or at the end when there
  is none: what \<^verbatim>\<open>findIndex\<close> followed by \<^verbatim>\<open>splice\<close> or \<^verbatim>\<open>push\<close> computes.
  \<open>mkField\<close> builds a field from its type, name and parent.
\<close>

fun insAfter :: "('a \<Rightarrow> bool) \<Rightarrow> 'a \<Rightarrow> 'a list \<Rightarrow> 'a list" where
  "insAfter P d [] = [d]"
| "insAfter P d (x # xs) = (if P x then x # d # xs else x # insAfter P d xs)"

definition placedFirst :: "FormField list \<Rightarrow> FormField list" where
  "placedFirst fs =
     filter (\<lambda>f. \<not> hasDependsOn f \<and> isTitleField f) fs
     @ sort_key (\<lambda>f. typePriority (ftype f)) (filter (\<lambda>f. \<not> hasDependsOn f \<and> \<not> isTitleField f) fs)"



section \<open>forms.ts: fields from provider properties\<close>

text \<open>
  The members of \<^verbatim>\<open>StandardPropertyType\<close> that forms.ts names; \<open>OTHER\<close> stands for
  any further member, which the \<^verbatim>\<open>switch\<close> statements send to their default branch.
\<close>

datatype StandardPropertyType =
    TEXT | EMAIL | PHONE | URL | BOOLEAN | USER
  | TEXTAREA
  | NUMBER | CURRENCY
  | DATE | DATETIME
  | SELECT | STATUS | STAGE | ENUM
  | MULTISELECT | SET
  | OTHER string

text \<open>The attributes of a provider \<^verbatim>\<open>Property\<close> that the form builder reads.\<close>

record Property =
  standardName :: string
  ptype :: string
  plabel :: string
  poptions :: "FieldOptions option"
  pdependsOn :: "string option"

datatype ProviderEntityType =
  Contact | Company | Deal | Task | Meeting | Page | Note | Organization

record PropertiesByEntityType =
  pbid :: string
  pbproperties :: "Property list"

text \<open>A page entity, as far as the form builder reads it: its id and its property values.\<close>

record ProviderPage =
  eid :: string
  eproperties :: jsval

text \<open>
  What the form builder imports from modules that are not part of the sources at hand
  (fieldConfig.ts, util/dates, util/general, util/notion, the useProviderProperty hook,
  the values of the ProviderEntityType enum): it is a parameter of the model.
  \<open>nowLocalISO\<close> is \<^verbatim>\<open>toLocalISOString(new Date())\<close>.
\<close>

record Env =
  getPropertyType :: "Property \<Rightarrow> string \<Rightarrow> StandardPropertyType"
  formatSnakeCaseLabel :: "string \<Rightarrow> string"
  nowLocalISO :: string
  hasDynamicFields :: "string \<Rightarrow> ProviderEntityType \<Rightarrow> bool"
  getFieldNamesForProvider :: "string \<Rightarrow> ProviderEntityType \<Rightarrow> string list"
  getPropertyLabel :: "Property list \<Rightarrow> string \<Rightarrow> string option"
  getPropertyOptions :: "Property list \<Rightarrow> string \<Rightarrow> FieldOptions option"
  entityTypeId :: "ProviderEntityType \<Rightarrow> string"
  decodeEntityId :: "string \<Rightarrow> string list"
  convertNotionPropertiesToFormFields :: "Property list \<Rightarrow> jsval \<Rightarrow> FormField list"

fun mapPropertyTypeToFormType :: "StandardPropertyType \<Rightarrow> FieldType" where
  "mapPropertyTypeToFormType TEXT = Text"
| "mapPropertyTypeToFormType EMAIL = Text"
| "mapPropertyTypeToFormType PHONE = Text"
| "mapPropertyTypeToFormType URL = Text"
| "mapPropertyTypeToFormType BOOLEAN = Text"
| "mapPropertyTypeToFormType USER = Text"
| "mapPropertyTypeToFormType TEXTAREA = Textarea"
| "mapPropertyTypeToFormType NUMBER = Number"
| "mapPropertyTypeToFormType CURRENCY = Number"
| "mapPropertyTypeToFormType DATE = Date"
| "mapPropertyTypeToFormType DATETIME = Date"
| "mapPropertyTypeToFormType SELECT = Select"
| "mapPropertyTypeToFormType STATUS = Select"
| "mapPropertyTypeToFormType STAGE = Select"
| "mapPropertyTypeToFormType ENUM = Select"
| "mapPropertyTypeToFormType MULTISELECT = Multiselect"
| "mapPropertyTypeToFormType SET = Multiselect"
| "mapPropertyTypeToFormType (OTHER t) = Text"

fun getDefaultValue :: "Env \<Rightarrow> StandardPropertyType \<Rightarrow> FieldValue" where
  "getDefaultValue env DATE = VString (nowLocalISO env)"
| "getDefaultValue env DATETIME = VString (nowLocalISO env)"
| "getDefaultValue env NUMBER = VString ''0''"
| "getDefaultValue env CURRENCY = VString ''0''"
| "getDefaultValue env MULTISELECT = VStrings []"
| "getDefaultValue env t = VString []"

text \<open>
  \<^verbatim>\<open>Array.isArray(o) && o.length > 0\<close> on an optional options attribute, and the
  condition under which the builder forces the select type: a non-empty array, or a record
  with at least one key.
\<close>

fun nonEmptyArray :: "FieldOptions option \<Rightarrow> bool" where
  "nonEmptyArray (Some (OptArray os)) = (os \<noteq> [])"
| "nonEmptyArray other = False"

fun nonEmptyOptions :: "FieldOptions option \<Rightarrow> bool" where
  "nonEmptyOptions (Some (OptArray os)) = (os \<noteq> [])"
| "nonEmptyOptions (Some (OptRecord kvs)) = (kvs \<noteq> [])"
| "nonEmptyOptions None = False"

text \<open>\<^verbatim>\<open>property.options[0].value\<close>, read only when the array is not empty.\<close>

fun firstOptionValue :: "FieldOptions option \<Rightarrow> string" where
  "firstOptionValue (Some (OptArray (opt # os))) = ovalue opt"
| "firstOptionValue other = []"

text \<open>
  The condition of the first override in buildFormFieldsFromProperties, which the source
  comments as "explicitly multiselect type".
\<close>

definition explicitMultiselect :: "Env \<Rightarrow> string \<Rightarrow> Property \<Rightarrow> bool" where
  "explicitMultiselect env provider property =
     (ptype property = ''multiselect'' \<or> getPropertyType env property provider = MULTISELECT)"

text \<open>The callback that buildFormFieldsFromProperties maps over the field names, for a
  name whose property was found.\<close>

definition buildFormField :: "Env \<Rightarrow> string \<Rightarrow> string \<Rightarrow> Property \<Rightarrow> FormField" where
  "buildFormField env provider nm property =
     (let propertyType = getPropertyType env property provider;
          formType0 = mapPropertyTypeToFormType propertyType;
          formType =
            (if ptype property = ''multiselect'' \<or> propertyType = MULTISELECT then Multiselect
             else if poptions property \<noteq> None then
               (if nonEmptyArray (poptions property) then Select
                else if nonEmptyOptions (poptions property) then Select
                else formType0)
             else formType0);
          defaultValue0 = getDefaultValue env propertyType;
          defaultValue =
            (if formType = Select \<and> nonEmptyArray (poptions property)
               then VString (firstOptionValue (poptions property))
             else if formType = Multiselect then VStrings []
             else defaultValue0)
      in \<lparr>ftype = formType, label = None,
          providerLabel = Some (formatSnakeCaseLabel env (plabel property)),
          fvalue = defaultValue, name = nm, options = poptions property,
          dependsOn = pdependsOn property, metadata = None, isFutureOnly = None\<rparr>)"

definition buildFormFieldsFromProperties ::
  "Env \<Rightarrow> string list \<Rightarrow> Property list \<Rightarrow> string \<Rightarrow> FormField list" where
  "buildFormFieldsFromProperties env fieldNames properties provider =
     sortFieldsByPriority
       (List.map_filter
          (\<lambda>nm. case find (\<lambda>p. standardName p = nm) properties of
                   None \<Rightarrow> None
                 | Some property \<Rightarrow> Some (buildFormField env provider nm property))
          fieldNames)"

text \<open>The static forms, for entity types or providers without dynamic properties.\<close>

definition staticField :: "FieldType \<Rightarrow> string \<Rightarrow> string \<Rightarrow> string \<Rightarrow> FormField" where
  "staticField t l v n = \<lparr>ftype = t, label = Some l, providerLabel = None, fvalue = VString v,
     name = n, options = None, dependsOn = None, metadata = None, isFutureOnly = None\<rparr>"

definition mkOption :: "string \<Rightarrow> string \<Rightarrow> FormFieldOption" where
  "mkOption l v = \<lparr>olabel = l, ovalue = v\<rparr>"

fun forms :: "Env \<Rightarrow> ProviderEntityType \<Rightarrow> FormField list option" where
  "forms env Contact = Some
     [staticField Text ''RelationshipModal.Name'' [] ''name'',
      staticField Text ''RelationshipModal.Phone'' [] ''phone'',
      staticField Text ''RelationshipModal.Email'' [] ''email'']"
| "forms env Company = Some
     [staticField Text ''RelationshipModal.Name'' [] ''name'',
      staticField Text ''RelationshipModal.Website'' [] ''website'']"
| "forms env Deal = Some
     [staticField Text ''RelationshipModal.Title'' [] ''title'',
      staticField Number ''RelationshipModal.Amount'' ''0'' ''amount'',
      staticField Date ''RelationshipModal.CloseDate'' (nowLocalISO env) ''closeDate'']"
| "forms env Meeting = Some
     [staticField Text ''RelationshipModal.Title'' [] ''title'',
      (staticField Date ''RelationshipModal.StartDate'' (nowLocalISO env) ''startDate'')
        \<lparr>isFutureOnly := Some True\<rparr>,
      (staticField Select ''RelationshipModal.Duration'' ''15'' ''duration'')
        \<lparr>options := Some (OptArray [mkOption ''15'' ''15'', mkOption ''30'' ''30'',
           mkOption ''45'' ''45'', mkOption ''60'' ''60'', mkOption ''120'' ''120''])\<rparr>]"
| "forms env Note = Some
     [staticField Textarea ''RelationshipModal.Text'' [] ''body'']"
| "forms env Task = Some
     [staticField Text ''RelationshipModal.Title'' [] ''subject'',
      (staticField Date ''RelationshipModal.Date'' (nowLocalISO env) ''date'')
        \<lparr>isFutureOnly := Some True\<rparr>,
      staticField Textarea ''RelationshipModal.Text'' [] ''body'',
      (staticField Select ''RelationshipModal.TaskType'' ''TODO'' ''taskType'')
        \<lparr>options := Some (OptArray [mkOption ''To-do'' ''TODO'', mkOption ''Email'' ''EMAIL'',
           mkOption ''Call'' ''CALL''])\<rparr>,
      (staticField Select ''RelationshipModal.Priority'' ''NONE'' ''priority'')
        \<lparr>options := Some (OptArray [mkOption ''Low'' ''LOW'', mkOption ''Medium'' ''MEDIUM'',
           mkOption ''High'' ''HIGH'', mkOption ''None'' ''NONE''])\<rparr>]"
| "forms env Organization = Some []"
| "forms env Page = Some
     [staticField Text ''RelationshipModal.Title'' [] ''title'']"

section \<open>minimalFields.ts\<close>

fun MINIMAL_FIELDS :: "ProviderEntityType \<Rightarrow> string list" where
  "MINIMAL_FIELDS Contact = [''name'', ''email'', ''phone'']"
| "MINIMAL_FIELDS Company = [''name'', ''website'', ''industry'']"
| "MINIMAL_FIELDS Deal = [''title'', ''pipeline'', ''stage'']"
| "MINIMAL_FIELDS Task = [''subject'', ''date'', ''taskType'']"
| "MINIMAL_FIELDS Meeting = [''title'', ''startDate'', ''duration'']"
| "MINIMAL_FIELDS Page = []"
| "MINIMAL_FIELDS Note = []"
| "MINIMAL_FIELDS Organization = []"

definition getMinimalFieldsForEntity :: "ProviderEntityType \<Rightarrow> string list" where
  "getMinimalFieldsForEntity entityType = MINIMAL_FIELDS entityType"

definition hasMinimalFields :: "ProviderEntityType \<Rightarrow> bool" where
  "hasMinimalFields entityType = (length (MINIMAL_FIELDS entityType) > 0)"

section \<open>ProviderEntityForm: the fields of the form\<close>

datatype FieldFilter = All | Minimal

text \<open>\<^verbatim>\<open>xs[1]\<close>, \<open>None\<close> for \<^verbatim>\<open>undefined\<close>.\<close>

fun second :: "'a list \<Rightarrow> 'a option" where
  "second (x # y # ys) = Some y"
| "second ys = None"

definition isSelectType :: "FieldType \<Rightarrow> bool" where
  "isSelectType t = (t = Select \<or> t = Multiselect)"

text \<open>The static path: labels and options from the provider, then the filter that hides
  select and multiselect fields with no options.\<close>

definition enrichField :: "Env \<Rightarrow> Property list \<Rightarrow> FormField \<Rightarrow> FormField" where
  "enrichField env props field =
     (let updatedField = field\<lparr>providerLabel := getPropertyLabel env props (name field)\<rparr>
      in if isSelectType (ftype field) then
           (let opts = getPropertyOptions env props (name field)
            in if nonEmptyArray opts then updatedField\<lparr>options := opts\<rparr> else updatedField)
         else updatedField)"

definition keepField :: "FormField \<Rightarrow> bool" where
  "keepField field =
     (if isSelectType (ftype field) then nonEmptyArray (options field) else True)"

text \<open>
  The memoized \<^verbatim>\<open>formFields\<close> of the component, as a function of the component's
  props. The prop \<^verbatim>\<open>fieldFilter\<close> is destructured by the component and is an argument
  here, but the computation does not read it.
\<close>

definition formFields ::
  "Env \<Rightarrow> string \<Rightarrow> ProviderEntityType \<Rightarrow> ProviderPage option \<Rightarrow> PropertiesByEntityType list
     \<Rightarrow> FieldFilter \<Rightarrow> string option \<Rightarrow> FormField list" where
  "formFields env provider entityType entity properties fieldFilter databaseId =
     (let props = (case find (\<lambda>e. pbid e = entityTypeId env entityType) properties of
                     None \<Rightarrow> [] | Some e \<Rightarrow> pbproperties e);
          dbId = (case entity of None \<Rightarrow> databaseId
                              | Some pageEntity \<Rightarrow> second (decodeEntityId env (eid pageEntity)));
          entityProperties = (case find (\<lambda>e. Some (pbid e) = dbId) properties of
                                None \<Rightarrow> [] | Some e \<Rightarrow> pbproperties e)
      in if entityType = Page \<and> entityProperties \<noteq> [] then
           convertNotionPropertiesToFormFields env entityProperties
             (case entity of
                None \<Rightarrow> Obj []
              | Some pageEntity \<Rightarrow>
                  if truthy (eproperties pageEntity) then eproperties pageEntity else Obj [])
         else if hasDynamicFields env provider entityType then
           buildFormFieldsFromProperties env
             (getFieldNamesForProvider env provider entityType) props provider
         else
           (case forms env entityType of
              None \<Rightarrow> []
            | Some baseFields \<Rightarrow> filter keepField (map (enrichField env props) baseFields)))"

text \<open>
  A sample environment and sample properties for the concrete evaluations: dynamic
  fields for hubspot and pipedrive, labels and options looked up by standard name.
\<close>

definition sampleEnv :: Env where
  "sampleEnv = \<lparr>
     getPropertyType = (\<lambda>p provider.
        if ptype p = ''multiselect'' then MULTISELECT
        else if ptype p = ''set'' then SET
        else if ptype p = ''number'' then NUMBER
        else TEXT),
     formatSnakeCaseLabel = (\<lambda>l. l),
     nowLocalISO = ''2024-03-10T15:00'',
     hasDynamicFields = (\<lambda>provider t. provider = ''hubspot'' \<or> provider = ''pipedrive''),
     getFieldNamesForProvider = (\<lambda>provider t. [''title'', ''amount'', ''pipeline'', ''label_ids'']),
     getPropertyLabel = (\<lambda>props n.
        case find (\<lambda>p. standardName p = n) props of None \<Rightarrow> None | Some p \<Rightarrow> Some (plabel p)),
     getPropertyOptions = (\<lambda>props n.
        case find (\<lambda>p. standardName p = n) props of None \<Rightarrow> None | Some p \<Rightarrow> poptions p),
     entityTypeId = (\<lambda>t. case t of Contact \<Rightarrow> ''contact'' | Company \<Rightarrow> ''company''
        | Deal \<Rightarrow> ''deal'' | Task \<Rightarrow> ''task'' | Meeting \<Rightarrow> ''meeting'' | Page \<Rightarrow> ''page''
        | Note \<Rightarrow> ''note'' | Organization \<Rightarrow> ''organization''),
     decodeEntityId = (\<lambda>i. split CHR '':'' i),
     convertNotionPropertiesToFormFields = (\<lambda>props vals. [])\<rparr>"

definition pipelineProperty :: Property where
  "pipelineProperty = \<lparr>standardName = ''pipeline'', ptype = ''string'', plabel = ''Pipeline'',
     poptions = Some (OptArray [mkOption ''Sales'' ''1'', mkOption ''Partners'' ''2'']),
     pdependsOn = None\<rparr>"

definition labelsProperty :: Property where
  "labelsProperty = \<lparr>standardName = ''label_ids'', ptype = ''multiselect'', plabel = ''Labels'',
     poptions = None, pdependsOn = None\<rparr>"

section \<open>Dates\<close>

text \<open>
  A \<^verbatim>\<open>Date\<close> object holds a time value: a whole number of milliseconds since the
  epoch, at most \<open>8.64 \<times> 10\<^sup>1\<^sup>5\<close> in absolute value, or \<^verbatim>\<open>NaN\<close> (an invalid date).
  The abstract operations are those of the ECMAScript specification of \<^verbatim>\<open>Date\<close>.
  The local time zone belongs to the host: it is a parameter, given by the offset that
  applies at a UTC time and the offset that is chosen for a local time.
\<close>

datatype JsDate = InvalidDate | TimeValue int

record Zone =
  offsetAtUTC :: "int \<Rightarrow> int"
  offsetAtLocal :: "int \<Rightarrow> int"

definition LocalTime :: "Zone \<Rightarrow> int \<Rightarrow> int" where
  "LocalTime z t = t + offsetAtUTC z t"

definition UTC :: "Zone \<Rightarrow> int \<Rightarrow> int" where
  "UTC z t = t - offsetAtLocal z t"

definition msPerDay :: int where
  "msPerDay = 86400000"

definition Day :: "int \<Rightarrow> int" where
  "Day t = t div msPerDay"

definition TimeWithinDay :: "int \<Rightarrow> int" where
  "TimeWithinDay t = t mod msPerDay"

definition MakeTime :: "int \<Rightarrow> int \<Rightarrow> int \<Rightarrow> int \<Rightarrow> int" where
  "MakeTime hour minute sec ms = hour * 3600000 + minute * 60000 + sec * 1000 + ms"

definition MakeDate :: "int \<Rightarrow> int \<Rightarrow> int" where
  "MakeDate day time = day * msPerDay + time"

definition TimeClip :: "int \<Rightarrow> JsDate" where
  "TimeClip t = (if \<bar>t\<bar> \<le> 8640000000000000 then TimeValue t else InvalidDate)"

text \<open>
  \<^verbatim>\<open>d.setDate(d.getDate() + 1)\<close>. The specification computes MakeDay(YearFromTime(t),
  MonthFromTime(t), DateFromTime(t) + 1) for the local time \<open>t\<close>; as MakeDay(y, m, dt) is
  the day number of the first of the month plus \<open>dt - 1\<close> and DateFromTime counts from
  that first day, this is the day number \<open>Day t + 1\<close>.
\<close>

definition setDateToNextDay :: "Zone \<Rightarrow> JsDate \<Rightarrow> JsDate" where
  "setDateToNextDay z d =
     (case d of
        InvalidDate \<Rightarrow> InvalidDate
      | TimeValue tv \<Rightarrow>
          (let t = LocalTime z tv
           in TimeClip (UTC z (MakeDate (Day t + 1) (TimeWithinDay t)))))"

text \<open>\<^verbatim>\<open>d.setHours(hours, minutes, 0, 0)\<close>.\<close>

definition setHours :: "Zone \<Rightarrow> int \<Rightarrow> int \<Rightarrow> JsDate \<Rightarrow> JsDate" where
  "setHours z hours minutes d =
     (case d of
        InvalidDate \<Rightarrow> InvalidDate
      | TimeValue tv \<Rightarrow>
          (let t = LocalTime z tv
           in TimeClip (UTC z (MakeDate (Day t) (MakeTime hours minutes 0 0)))))"

section \<open>The reminder tool: parseRemindAt\<close>

text \<open>
  What the resolver reads from its host: the wall clock \<^verbatim>\<open>new Date()\<close> (a time value in
  range), the local time zone, and the parser behind \<^verbatim>\<open>new Date(input)\<close> (\<open>None\<close> when
  the string does not parse, else a time value in range), whose result outside the ISO
  format is implementation-defined.
\<close>

record Clock =
  now :: int
  zone :: Zone
  dateParse :: "string \<Rightarrow> int option"

definition isDigit :: "char \<Rightarrow> bool" where
  "isDigit c = (48 \<le> (of_char c :: nat) \<and> (of_char c :: nat) \<le> 57)"

text \<open>\<^verbatim>\<open>parseInt(ds, 10)\<close> on a string of decimal digits.\<close>

definition digitValue :: "char \<Rightarrow> nat" where
  "digitValue c = of_char c - 48"

definition parseInt :: "string \<Rightarrow> int" where
  "parseInt ds = int (foldl (\<lambda>a c. 10 * a + digitValue c) 0 ds)"

fun stripPrefix :: "string \<Rightarrow> string \<Rightarrow> string option" where
  "stripPrefix [] s = Some s"
| "stripPrefix (p # ps) [] = None"
| "stripPrefix (p # ps) (c # cs) = (if p = c then stripPrefix ps cs else None)"

text \<open>
  The regular expression \<^verbatim>\<open>/^in\s+(\d+)\s+(minute|hour|day|week)s?$/\<close>. Every
  quantifier is followed by a character class disjoint from its own, so the greedy reading
  is the only one that can match: the white space and the digits are taken as far as they
  go. The result holds the two groups.
\<close>

definition unitOf :: "string \<Rightarrow> string option" where
  "unitOf r =
     (if r = ''minute'' \<or> r = ''minutes'' then Some ''minute''
      else if r = ''hour'' \<or> r = ''hours'' then Some ''hour''
      else if r = ''day'' \<or> r = ''days'' then Some ''day''
      else if r = ''week'' \<or> r = ''weeks'' then Some ''week''
      else None)"

definition inMatch :: "string \<Rightarrow> (string \<times> string) option" where
  "inMatch lower =
     (case stripPrefix ''in'' lower of
        None \<Rightarrow> None
      | Some r1 \<Rightarrow>
          (let r2 = dropWhile isWhiteSpace r1;
               amount = takeWhile isDigit r2;
               r3 = dropWhile isDigit r2;
               r4 = dropWhile isWhiteSpace r3
           in if takeWhile isWhiteSpace r1 = [] \<or> amount = [] \<or> takeWhile isWhiteSpace r3 = []
              then None
              else (case unitOf r4 of None \<Rightarrow> None | Some unit \<Rightarrow> Some (amount, unit))))"

text \<open>The table of unit lengths in milliseconds; the fallback \<^verbatim>\<open>|| 0\<close> covers no unit
  that the expression lets through.\<close>

definition unitMs :: "string \<Rightarrow> int" where
  "unitMs unit =
     (if unit = ''minute'' then 60 * 1000
      else if unit = ''hour'' then 60 * 60 * 1000
      else if unit = ''day'' then 24 * 60 * 60 * 1000
      else if unit = ''week'' then 7 * 24 * 60 * 60 * 1000
      else 0)"

text \<open>
  The clock part \<^verbatim>\<open>(\d{1,2})(?::(\d{2}))?\s*(am|pm)?\<close> shared by the two remaining
  expressions, read at a string that starts with a digit: the groups (hours, minutes,
  am or pm) and the rest of the string after the match. Each part is greedy, and what
  follows an optional part can never match where that part does.
\<close>

record ClockMatch =
  hoursGroup :: string
  minutesGroup :: "string option"
  ampmGroup :: "string option"
  rest :: string

definition takeHours :: "string \<Rightarrow> string \<times> string" where
  "takeHours s =
     (case s of
        d1 # d2 # r \<Rightarrow> if isDigit d2 then ([d1, d2], r) else ([d1], d2 # r)
      | _ \<Rightarrow> (s, []))"

definition takeMinutes :: "string \<Rightarrow> string option \<times> string" where
  "takeMinutes s =
     (case s of
        c # m1 # m2 # r \<Rightarrow>
          if c = CHR '':'' \<and> isDigit m1 \<and> isDigit m2 then (Some [m1, m2], r) else (None, s)
      | _ \<Rightarrow> (None, s))"

definition takeAmPm :: "string \<Rightarrow> string option \<times> string" where
  "takeAmPm s =
     (case stripPrefix ''am'' s of
        Some r \<Rightarrow> (Some ''am'', r)
      | None \<Rightarrow> (case stripPrefix ''pm'' s of Some r \<Rightarrow> (Some ''pm'', r) | None \<Rightarrow> (None, s)))"

definition clockAt :: "string \<Rightarrow> ClockMatch" where
  "clockAt s =
     (let (h, r1) = takeHours s;
          (m, r2) = takeMinutes r1;
          (a, r3) = takeAmPm (dropWhile isWhiteSpace r2)
      in \<lparr>hoursGroup = h, minutesGroup = m, ampmGroup = a, rest = r3\<rparr>)"

text \<open>
  \<^verbatim>\<open>lower.match(/(\d{1,2})(?::(\d{2}))?\s*(am|pm)?/)\<close>: not anchored, so the match
  starts at the first digit of the string, wherever it is.
\<close>

definition timeMatch :: "string \<Rightarrow> ClockMatch option" where
  "timeMatch lower =
     (let r = dropWhile (\<lambda>c. \<not> isDigit c) lower
      in if r = [] then None else Some (clockAt r))"

text \<open>
  \<^verbatim>\<open>/^(?:today\s+)?(?:at\s+)?(\d{1,2})(?::(\d{2}))?\s*(am|pm)?$/\<close>: anchored at both
  ends. A string that starts with \<open>today\<close> or \<open>at\<close> can only match through the
  optional prefix, which needs white space after the word.
\<close>

definition skipWord :: "string \<Rightarrow> string \<Rightarrow> string option" where
  "skipWord w s =
     (case stripPrefix w s of
        None \<Rightarrow> Some s
      | Some r \<Rightarrow> if takeWhile isWhiteSpace r = [] then None else Some (dropWhile isWhiteSpace r))"

definition todayMatch :: "string \<Rightarrow> ClockMatch option" where
  "todayMatch lower =
     (case skipWord ''today'' lower of
        None \<Rightarrow> None
      | Some r1 \<Rightarrow>
          (case skipWord ''at'' r1 of
             None \<Rightarrow> None
           | Some r2 \<Rightarrow>
               (case r2 of
                  [] \<Rightarrow> None
                | d # _ \<Rightarrow>
                    if isDigit d \<and> rest (clockAt r2) = [] then Some (clockAt r2) else None)))"

text \<open>The conversion of the matched groups to the arguments of \<^verbatim>\<open>setHours\<close>.\<close>

definition hoursOf :: "ClockMatch \<Rightarrow> int" where
  "hoursOf m =
     (let hours = parseInt (hoursGroup m);
          hours1 = (if ampmGroup m = Some ''pm'' \<and> hours < 12 then hours + 12 else hours)
      in if ampmGroup m = Some ''am'' \<and> hours1 = 12 then 0 else hours1)"

definition minutesOf :: "ClockMatch \<Rightarrow> int" where
  "minutesOf m = (case minutesGroup m of None \<Rightarrow> 0 | Some ds \<Rightarrow> parseInt ds)"

text \<open>
  \<open>None\<close> is the result \<^verbatim>\<open>undefined\<close>. The arithmetic of the relative rule is on
  doubles in the source and on integers here; both agree: the unit lengths are multiples
  of 32, so a sum within the range of time values is computed exactly, and a sum outside
  of it stays outside after rounding and gives an invalid date.
\<close>

definition parseRemindAt :: "Clock \<Rightarrow> string \<Rightarrow> JsDate option" where
  "parseRemindAt clock input =
     (if dateParse clock input \<noteq> None \<and> CHR ''-'' \<in> set input
      then Some (TimeValue (the (dateParse clock input)))
      else
        (let lower = trim (toLowerCase input) in
         case inMatch lower of
           Some (amount, unit) \<Rightarrow>
             Some (TimeClip (now clock + parseInt amount * unitMs unit))
         | None \<Rightarrow>
             if stripPrefix ''tomorrow'' lower \<noteq> None then
               (let tomorrow = setDateToNextDay (zone clock) (TimeValue (now clock))
                in case timeMatch lower of
                     Some m \<Rightarrow> Some (setHours (zone clock) (hoursOf m) (minutesOf m) tomorrow)
                   | None \<Rightarrow> Some (setHours (zone clock) 9 0 tomorrow))
             else
               (case todayMatch lower of
                  Some m \<Rightarrow>
                    Some (setHours (zone clock) (hoursOf m) (minutesOf m) (TimeValue (now clock)))
                | None \<Rightarrow> None)))"

text \<open>
  Sample hosts for the concrete evaluations. A zone with a fixed offset from UTC; a clock
  at 2024-01-01T00:00:00Z in UTC; a clock at 2024-03-10T15:00:00 local time, two hours
  ahead of UTC. Their date parser accepts nothing: the inputs evaluated below hold no
  hyphen, so the resolver does not use the parser's answer.
\<close>

definition fixedZone :: "int \<Rightarrow> Zone" where
  "fixedZone off = \<lparr>offsetAtUTC = (\<lambda>t. off), offsetAtLocal = (\<lambda>t. off)\<rparr>"

definition utcClock :: Clock where
  "utcClock = \<lparr>now = 1704067200000, zone = fixedZone 0, dateParse = (\<lambda>s. None)\<rparr>"

definition marchClock :: Clock where
  "marchClock = \<lparr>now = 1710075600000, zone = fixedZone 7200000, dateParse = (\<lambda>s. None)\<rparr>"

text \<open>
  A clock at the last time value of the range, 275760-09-13T00:00:00Z, in a zone ten
  hours behind UTC.
\<close>

definition edgeClock :: Clock where
  "edgeClock = \<lparr>now = 8640000000000000, zone = fixedZone (- 36000000), dateParse = (\<lambda>s. None)\<rparr>"

text \<open>
  The date object for the local day number \<open>d\<close> at \<open>h:m:00.000\<close> local time: what
  \<^verbatim>\<open>setHours(h, m, 0, 0)\<close> produces from a date whose local day is \<open>d\<close>.
\<close>

definition atLocal :: "Zone \<Rightarrow> int \<Rightarrow> int \<Rightarrow> int \<Rightarrow> JsDate" where
  "atLocal z d h m = TimeClip (UTC z (MakeDate d (MakeTime h m 0 0)))"

section \<open>The reminder tool: executeCreateReminder and executeUpdateReminder\<close>

text \<open>
  The arguments of a tool call, as the two executors read them: \<^verbatim>\<open>chatId\<close>,
  \<^verbatim>\<open>description\<close>, \<^verbatim>\<open>remindAt\<close> and \<^verbatim>\<open>messageId\<close> are strings when present,
  \<^verbatim>\<open>reminderId\<close> is a number.
\<close>

record ReminderArgs =
  chatId :: string
  description :: "string option"
  remindAt :: "string option"
  messageId :: "string option"
  reminderId :: int

text \<open>
  The requests to the reminder API. \<^verbatim>\<open>remind_at\<close> is the ISO string of a valid date,
  kept here as its time value.
\<close>

record CreateReminderData =
  chat_id :: string
  message_id :: "string option"
  new_description :: "string option"
  remind_at :: int
  organization_id :: "int option"

record UpdateData =
  upd_description :: "string option"
  upd_remind_at :: "int option"

datatype ApiCall =
    CreateReminderCall CreateReminderData
  | UpdateReminderCall int UpdateData

text \<open>
  How a request ends: fulfilled (for a creation, with the new reminder's id), rejected
  with an \<^verbatim>\<open>Error\<close> and its message, or rejected with some other value.
\<close>

datatype ApiOutcome = Fulfilled int | RejectedError string | RejectedOther

text \<open>
  The state outside the executors: the requests sent to the reminder API so far, the
  number of \<^verbatim>\<open>loadTelebizReminders\<close> actions dispatched, and the id of the current
  organization in the global state (which the executors only read).
\<close>

record World =
  apiCalls :: "ApiCall list"
  reminderReloads :: nat
  currentOrganizationId :: "int option"

datatype Thrown = TypeError | RangeError

datatype ToolData =
    Created int string "string option" int
  | Updated int UpdateData

datatype ToolResult = Failed string | Succeeded ToolData

text \<open>\<^verbatim>\<open>error instanceof Error ? error.message : 'Unknown error'\<close>.\<close>

fun errorMessage :: "ApiOutcome \<Rightarrow> string" where
  "errorMessage (RejectedError msg) = msg"
| "errorMessage other = ''Unknown error''"

text \<open>
  A truthy string argument: present and not empty.
\<close>

fun truthyString :: "string option \<Rightarrow> bool" where
  "truthyString None = False"
| "truthyString (Some s) = (s \<noteq> [])"

text \<open>
  executeCreateReminder. With no \<^verbatim>\<open>remindAt\<close> argument the resolver calls a method
  of \<^verbatim>\<open>undefined\<close> and throws. An invalid date is a truthy object; its
  \<^verbatim>\<open>toISOString\<close> throws a RangeError while the request is being built, inside the
  \<^verbatim>\<open>try\<close> block (the message is the one of V8).
\<close>

definition executeCreateReminder ::
  "Clock \<Rightarrow> (ApiCall \<Rightarrow> ApiOutcome) \<Rightarrow> ReminderArgs \<Rightarrow> World \<Rightarrow> (Thrown + ToolResult) \<times> World" where
  "executeCreateReminder clock api args w =
     (case remindAt args of
        None \<Rightarrow> (Inl TypeError, w)
      | Some input \<Rightarrow>
          (case parseRemindAt clock input of
             None \<Rightarrow> (Inr (Failed (''Could not parse reminder time: '' @ input)), w)
           | Some InvalidDate \<Rightarrow>
               (Inr (Failed (''Failed to create reminder: '' @ ''Invalid time value'')), w)
           | Some (TimeValue t) \<Rightarrow>
               (let request = CreateReminderCall
                      \<lparr>chat_id = chatId args, message_id = messageId args,
                       new_description = description args, remind_at = t,
                       organization_id = currentOrganizationId w\<rparr>;
                    w1 = w\<lparr>apiCalls := apiCalls w @ [request]\<rparr>
                in case api request of
                     Fulfilled newId \<Rightarrow>
                       (Inr (Succeeded (Created newId (chatId args) (description args) t)),
                        w1\<lparr>reminderReloads := reminderReloads w1 + 1\<rparr>)
                   | outcome \<Rightarrow>
                       (Inr (Failed (''Failed to create reminder: '' @ errorMessage outcome)), w1))))"

text \<open>
  executeUpdateReminder. The resolver runs only for a truthy \<^verbatim>\<open>remindAt\<close>; here the
  \<^verbatim>\<open>toISOString\<close> of an invalid date throws outside the \<^verbatim>\<open>try\<close> block.
\<close>

definition executeUpdateReminder ::
  "Clock \<Rightarrow> (ApiCall \<Rightarrow> ApiOutcome) \<Rightarrow> ReminderArgs \<Rightarrow> World \<Rightarrow> (Thrown + ToolResult) \<times> World" where
  "executeUpdateReminder clock api args w =
     (let updateData0 = \<lparr>upd_description =
              (if truthyString (description args) then description args else None),
            upd_remind_at = None\<rparr>;
          send = (\<lambda>updateData.
            (let request = UpdateReminderCall (reminderId args) updateData;
                 w1 = w\<lparr>apiCalls := apiCalls w @ [request]\<rparr>
             in case api request of
                  Fulfilled r \<Rightarrow>
                    (Inr (Succeeded (Updated (reminderId args) updateData)),
                     w1\<lparr>reminderReloads := reminderReloads w1 + 1\<rparr>)
                | outcome \<Rightarrow>
                    (Inr (Failed (''Failed to update reminder: '' @ errorMessage outcome)), w1)))
      in if truthyString (remindAt args) then
           (case parseRemindAt clock (the (remindAt args)) of
              None \<Rightarrow>
                (Inr (Failed (''Could not parse reminder time: '' @ the (remindAt args))), w)
            | Some InvalidDate \<Rightarrow> (Inl RangeError, w)
            | Some (TimeValue t) \<Rightarrow> send (updateData0\<lparr>upd_remind_at := Some t\<rparr>))
         else send updateData0)"

text \<open>Sample arguments, API and outside state for the concrete evaluations.\<close>

definition sampleArgs :: ReminderArgs where
  "sampleArgs = \<lparr>chatId = ''42'', description = Some ''call Bob'', remindAt = None,
     messageId = None, reminderId = 7\<rparr>"

definition sampleWorld :: World where
  "sampleWorld = \<lparr>apiCalls = [], reminderReloads = 0, currentOrganizationId = Some 1\<rparr>"

section \<open>Properties of normalizeFieldValue\<close>

lemma toPrimitiveValue_Str: "toPrimitiveValue (Str s) = (if s = [] then Undefined else Str s)"
  by (simp add: toPrimitiveValue_def)

lemma primitives_of_strings:
  "filter truthy (map (toPrimitiveValue \<circ> Str) xs) = map Str (filter (\<lambda>s. s \<noteq> []) xs)"
  by (induction xs) (simp_all add: toPrimitiveValue_Str)

lemma normalize_multiselect_strings:
  assumes "ftype field = Multiselect"
  shows "normalizeFieldValue field (Arr (map Str xs)) = Arr (map Str (filter (\<lambda>s. s \<noteq> []) xs))"
proof -
  have "map ((\<lambda>x. Str (js_String x)) \<circ> Str) ys = map Str ys" for ys
    by (induction ys) simp_all
  then show ?thesis
    using assms by (simp add: normalizeFieldValue_def primitives_of_strings)
qed

text \<open>
  C9, as stated, fails: a sequence of plain strings that holds an empty string is not
  returned unchanged, the empty string is filtered out. Such a sequence can be an output
  of normalizeFieldValue itself: an element whose \<^verbatim>\<open>value\<close> attribute is an empty
  array is kept by the filter and printed as the empty string, and normalizing that output
  again drops it.
\<close>

theorem C9_counterexample:
  "normalizeFieldValue labelsField (Arr [Str ''a'', Str []]) = Arr [Str ''a'']
   \<and> normalizeFieldValue labelsField (Arr [Str ''a'', Str []]) \<noteq> Arr [Str ''a'', Str []]
   \<and> normalizeFieldValue labelsField (Arr [Obj [(''value'', Arr [])]]) = Arr [Str []]
   \<and> normalizeFieldValue labelsField (Arr [Str []]) = Arr []"
  by (simp add: normalizeFieldValue_def labelsField_def toPrimitiveValue_def coalesce_def
      nullish_def)

text \<open>
  C9 (amended): for every multiselect field and every sequence of plain strings,
  normalizeFieldValue returns the sequence with its empty strings removed, in the same
  order. So a sequence of non-empty plain strings comes back unchanged, and normalizing
  a sequence of plain strings twice gives the same result as normalizing it once.
\<close>

theorem C9_normalize_strings:
  assumes "ftype field = Multiselect"
  shows "normalizeFieldValue field (Arr (map Str xs)) = Arr (map Str (filter (\<lambda>s. s \<noteq> []) xs))
       \<and> ((\<forall>s \<in> set xs. s \<noteq> []) \<longrightarrow> normalizeFieldValue field (Arr (map Str xs)) = Arr (map Str xs))
       \<and> normalizeFieldValue field (normalizeFieldValue field (Arr (map Str xs)))
           = normalizeFieldValue field (Arr (map Str xs))"
proof (intro conjI impI)
  show a: "normalizeFieldValue field (Arr (map Str xs)) = Arr (map Str (filter (\<lambda>s. s \<noteq> []) xs))"
    by (rule normalize_multiselect_strings [OF assms])
  show "normalizeFieldValue field (Arr (map Str xs)) = Arr (map Str xs)"
    if "\<forall>s \<in> set xs. s \<noteq> []"
  proof -
    from that have "filter (\<lambda>s. s \<noteq> []) xs = xs"
      by (induction xs) simp_all
    with a show ?thesis by simp
  qed
  show "normalizeFieldValue field (normalizeFieldValue field (Arr (map Str xs)))
      = normalizeFieldValue field (Arr (map Str xs))"
    by (simp add: normalize_multiselect_strings [OF assms])
qed

theorem C9_normalize_strings_witness:
  "ftype labelsField = Multiselect
   \<and> normalizeFieldValue labelsField (Arr [Str ''7'', Str ''12'']) = Arr [Str ''7'', Str ''12'']
   \<and> normalizeFieldValue labelsField (normalizeFieldValue labelsField (Arr [Str ''7'', Str []]))
       = normalizeFieldValue labelsField (Arr [Str ''7'', Str []])"
proof -
  have m: "ftype labelsField = Multiselect"
    by (simp add: labelsField_def)
  have a: "normalizeFieldValue labelsField (Arr [Str ''7'', Str ''12'']) = Arr [Str ''7'', Str ''12'']"
    using C9_normalize_strings [OF m, of "[''7'', ''12'']"] by simp
  have b: "normalizeFieldValue labelsField (normalizeFieldValue labelsField (Arr [Str ''7'', Str []]))
       = normalizeFieldValue labelsField (Arr [Str ''7'', Str []])"
    using conjunct2 [OF conjunct2 [OF C9_normalize_strings [OF m, of "[''7'', []]"]]] by simp
  from m a b show ?thesis by blast
qed

lemma coalesce_falsy: "\<not> truthy a \<Longrightarrow> \<not> truthy b \<Longrightarrow> \<not> truthy (coalesce a b)"
  by (simp add: coalesce_def)

lemma toPrimitiveValue_falsy: "\<not> truthy v \<Longrightarrow> toPrimitiveValue v = Undefined"
  by (simp add: toPrimitiveValue_def)

lemma toPrimitiveValue_Obj_no_truthy_attr:
  assumes "\<forall>k \<in> {''value'', ''id'', ''key'', ''name'', ''label''}. \<not> truthy (attr (Obj kvs) k)"
  shows "toPrimitiveValue (Obj kvs) = Undefined"
proof -
  have "\<not> truthy (coalesce (attr (Obj kvs) ''value'') (coalesce (attr (Obj kvs) ''id'')
          (coalesce (attr (Obj kvs) ''key'') (coalesce (attr (Obj kvs) ''name'')
            (attr (Obj kvs) ''label'')))))"
    using assms by (intro coalesce_falsy) simp_all
  then show ?thesis
    by (simp add: toPrimitiveValue_def Let_def)
qed

lemma normalize_multiselect_drop:
  assumes "ftype field = Multiselect" and "toPrimitiveValue x = Undefined"
  shows "normalizeFieldValue field (Arr (xs @ x # ys)) = normalizeFieldValue field (Arr (xs @ ys))"
  using assms by (simp add: normalizeFieldValue_def)

text \<open>
  C10: normalizeFieldValue treats a falsy extracted primitive as absent. For a
  multiselect field, an array element whose unwrapped primitive is falsy (toPrimitiveValue
  gives undefined for it) does not contribute to the result, and this is the case for the
  number 0, the empty string, null and an object none of whose value, id, key, name and
  label attributes is truthy; a comma-separated string gives its trimmed segments without
  those that trim to the empty string. For a select field, a truthy input from which no
  primitive is extracted normalizes to the empty string, not to undefined.
\<close>

theorem C10_falsy_primitive_is_absent:
  "(ftype field = Multiselect \<and> toPrimitiveValue x = Undefined \<longrightarrow>
      normalizeFieldValue field (Arr (xs @ x # ys)) = normalizeFieldValue field (Arr (xs @ ys)))
   \<and> toPrimitiveValue (Num 0) = Undefined
   \<and> toPrimitiveValue (Str []) = Undefined
   \<and> toPrimitiveValue Null = Undefined
   \<and> ((\<forall>k \<in> {''value'', ''id'', ''key'', ''name'', ''label''}. \<not> truthy (attr (Obj kvs) k)) \<longrightarrow>
      toPrimitiveValue (Obj kvs) = Undefined)
   \<and> (ftype field = Multiselect \<and> s \<noteq> [] \<longrightarrow>
      normalizeFieldValue field (Str s)
        = Arr (map Str (filter (\<lambda>seg. seg \<noteq> []) (map trim (split CHR '','' s))))
      \<and> Str [] \<notin> set (map Str (filter (\<lambda>seg. seg \<noteq> []) (map trim (split CHR '','' s)))))
   \<and> (ftype field = Select \<and> truthy v
       \<and> toPrimitiveValue (case v of Arr zs \<Rightarrow> first_element zs | _ \<Rightarrow> v) = Undefined \<longrightarrow>
      normalizeFieldValue field v = Str [] \<and> normalizeFieldValue field v \<noteq> Undefined)"
proof (intro conjI impI)
  show "normalizeFieldValue field (Arr (xs @ x # ys)) = normalizeFieldValue field (Arr (xs @ ys))"
    if "ftype field = Multiselect \<and> toPrimitiveValue x = Undefined"
    using that by (simp add: normalize_multiselect_drop)
  show "toPrimitiveValue (Num 0) = Undefined" "toPrimitiveValue (Str []) = Undefined"
    "toPrimitiveValue Null = Undefined"
    by (simp_all add: toPrimitiveValue_falsy)
  show "toPrimitiveValue (Obj kvs) = Undefined"
    if "\<forall>k \<in> {''value'', ''id'', ''key'', ''name'', ''label''}. \<not> truthy (attr (Obj kvs) k)"
    using that by (rule toPrimitiveValue_Obj_no_truthy_attr)
  show "normalizeFieldValue field (Str s)
        = Arr (map Str (filter (\<lambda>seg. seg \<noteq> []) (map trim (split CHR '','' s))))"
    if "ftype field = Multiselect \<and> s \<noteq> []"
    using that by (simp add: normalizeFieldValue_def)
  show "Str [] \<notin> set (map Str (filter (\<lambda>seg. seg \<noteq> []) (map trim (split CHR '','' s))))"
    by auto
  assume sel: "ftype field = Select \<and> truthy v
     \<and> toPrimitiveValue (case v of Arr zs \<Rightarrow> first_element zs | _ \<Rightarrow> v) = Undefined"
  then show e: "normalizeFieldValue field v = Str []"
    by (cases v) (auto simp add: normalizeFieldValue_def)
  then show "normalizeFieldValue field v \<noteq> Undefined"
    by simp
qed

theorem C10_falsy_primitive_is_absent_witness:
  "normalizeFieldValue labelsField (Arr [Str ''a'', Num 0, Str ''b''])
     = normalizeFieldValue labelsField (Arr [Str ''a'', Str ''b''])
   \<and> normalizeFieldValue labelsField (Arr [Obj [(''title'', Str ''x'')], Str ''b''])
     = normalizeFieldValue labelsField (Arr [Str ''b''])
   \<and> normalizeFieldValue labelsField (Str ''a, ,b'') = Arr [Str ''a'', Str ''b'']
   \<and> normalizeFieldValue ownerField (Obj []) = Str []"
proof -
  note thm1 = C10_falsy_primitive_is_absent [of labelsField "Num 0" "[Str ''a'']" "[Str ''b'']"
      "[(''title'', Str ''x'')]" "''a, ,b''" "Obj []"]
  note thm2 = C10_falsy_primitive_is_absent [of labelsField "Obj [(''title'', Str ''x'')]" "[]"
      "[Str ''b'']" "[(''title'', Str ''x'')]" "''a, ,b''" "Obj []"]
  note thm3 = C10_falsy_primitive_is_absent [of ownerField "Num 0" "[]" "[]" "[]" "''a''" "Obj []"]
  have m: "ftype labelsField = Multiselect" and sl: "ftype ownerField = Select"
    by (simp_all add: labelsField_def ownerField_def)
  have no_attr: "\<forall>k \<in> {''value'', ''id'', ''key'', ''name'', ''label''}.
      \<not> truthy (attr (Obj [(''title'', Str ''x'')]) k)"
    by simp
  have u: "toPrimitiveValue (Obj [(''title'', Str ''x'')]) = Undefined"
    using thm1 no_attr by blast
  have a: "normalizeFieldValue labelsField (Arr [Str ''a'', Num 0, Str ''b''])
     = normalizeFieldValue labelsField (Arr [Str ''a'', Str ''b''])"
    using thm1 m by simp
  have b: "normalizeFieldValue labelsField (Arr [Obj [(''title'', Str ''x'')], Str ''b''])
     = normalizeFieldValue labelsField (Arr [Str ''b''])"
    using thm2 m u by simp
  have segs: "filter (\<lambda>seg. seg \<noteq> []) (map trim (split CHR '','' ''a, ,b'')) = [''a'', ''b'']"
    by (simp add: split_def trim_def isWhiteSpace_def)
  have c: "normalizeFieldValue labelsField (Str ''a, ,b'') = Arr [Str ''a'', Str ''b'']"
    using thm1 m segs by simp
  have "toPrimitiveValue (Obj []) = Undefined"
    by (simp add: toPrimitiveValue_def coalesce_def nullish_def)
  then have d: "normalizeFieldValue ownerField (Obj []) = Str []"
    using thm3 sl by simp
  from a b c d show ?thesis by blast
qed

section \<open>Properties of the ordering pass\<close>

lemma splice_insAfter:
  "(case findIndex P xs of Some i \<Rightarrow> take (i + 1) xs @ [d] @ drop (i + 1) xs | None \<Rightarrow> xs @ [d])
     = insAfter P d xs"
  by (induction xs) (auto split: option.splits)

lemma insertDependent_insAfter:
  "insertDependent s d = insAfter (\<lambda>f. Some (name f) = dependsOn d) d s"
  unfolding insertDependent_def by (rule splice_insAfter)

lemma mset_insAfter: "mset (insAfter P d xs) = add_mset d (mset xs)"
  by (induction xs) auto

lemma set_insAfter: "set (insAfter P d xs) = insert d (set xs)"
  by (induction xs) auto




lemma insAfter_Cons: "\<exists>ys. insAfter P d (x # xs) = x # ys \<and> set ys = insert d (set xs)"
  by (auto simp: set_insAfter)



lemma mset_foldl_insertDependent: "mset (foldl insertDependent s ds) = mset s + mset ds"
  by (induction ds arbitrary: s) (simp_all add: insertDependent_insAfter mset_insAfter)






lemma sortFieldsByPriority_foldl:
  "sortFieldsByPriority fs = foldl insertDependent (placedFirst fs) (filter hasDependsOn fs)"
  by (simp add: sortFieldsByPriority_def placedFirst_def Let_def)


lemma mset_placedFirst: "mset (placedFirst fs) = filter_mset (\<lambda>f. \<not> hasDependsOn f) (mset fs)"
proof -
  have "mset (placedFirst fs) =
      filter_mset (\<lambda>f. \<not> hasDependsOn f \<and> isTitleField f) (mset fs)
      + filter_mset (\<lambda>f. \<not> hasDependsOn f \<and> \<not> isTitleField f) (mset fs)"
    by (simp add: placedFirst_def)
  also have "\<dots> = filter_mset (\<lambda>f. \<not> hasDependsOn f) (mset fs)"
    by (induction fs) auto
  finally show ?thesis .
qed

lemma mset_sortFieldsByPriority: "mset (sortFieldsByPriority fs) = mset fs"
proof -
  have "mset (sortFieldsByPriority fs)
      = filter_mset (\<lambda>f. \<not> hasDependsOn f) (mset fs) + filter_mset hasDependsOn (mset fs)"
    by (simp add: sortFieldsByPriority_foldl mset_foldl_insertDependent mset_placedFirst)
  also have "\<dots> = mset fs"
    by (induction fs) auto
  finally show ?thesis .
qed










section \<open>Properties of the form builder\<close>

lemma set_sortFieldsByPriority: "set (sortFieldsByPriority fs) = set fs"
proof -
  have "set_mset (mset (sortFieldsByPriority fs)) = set_mset (mset fs)"
    by (simp only: mset_sortFieldsByPriority)
  then show ?thesis by simp
qed

lemma buildFormField_explicit_multiselect:
  "explicitMultiselect env provider property \<Longrightarrow>
   ftype (buildFormField env provider nm property) = Multiselect"
  by (simp add: buildFormField_def explicitMultiselect_def Let_def)

lemma nonEmptyOptions_Some: "nonEmptyOptions opts \<Longrightarrow> opts \<noteq> None"
  by (cases opts) simp_all

lemma buildFormField_options_select:
  "\<not> explicitMultiselect env provider property \<Longrightarrow> nonEmptyOptions (poptions property) \<Longrightarrow>
   ftype (buildFormField env provider nm property) = Select"
  by (simp add: buildFormField_def explicitMultiselect_def Let_def nonEmptyOptions_Some)

lemma in_set_map_filter: "y \<in> set (List.map_filter g xs) \<longleftrightarrow> (\<exists>x \<in> set xs. g x = Some y)"
  by (induction xs) (auto simp add: map_filter_simps split: option.splits)

lemma set_buildFormFieldsFromProperties:
  "f \<in> set (buildFormFieldsFromProperties env fieldNames properties provider) \<longleftrightarrow>
   (\<exists>nm property. nm \<in> set fieldNames
      \<and> find (\<lambda>p. standardName p = nm) properties = Some property
      \<and> f = buildFormField env provider nm property)"
  unfolding buildFormFieldsFromProperties_def set_sortFieldsByPriority in_set_map_filter
  by (auto split: option.splits)

text \<open>
  C5: in the dynamic builder, a property that explicitly declares the multiselect type
  (its \<^verbatim>\<open>type\<close> attribute is 'multiselect', or its resolved property type is
  MULTISELECT) gives a field of type multiselect; otherwise a property with a non-empty
  option set (a non-empty array, or a record with at least one key) gives a field of type
  select, whatever the type table maps its property type to. The fields of the result of
  buildFormFieldsFromProperties are exactly the fields built this way from the properties
  found for the requested field names.
\<close>

theorem C5_override_rule:
  "(explicitMultiselect env provider property \<longrightarrow>
      ftype (buildFormField env provider nm property) = Multiselect)
   \<and> (\<not> explicitMultiselect env provider property \<and> nonEmptyOptions (poptions property) \<longrightarrow>
      ftype (buildFormField env provider nm property) = Select)
   \<and> (f \<in> set (buildFormFieldsFromProperties env fieldNames properties provider) \<longleftrightarrow>
      (\<exists>nm property. nm \<in> set fieldNames
         \<and> find (\<lambda>p. standardName p = nm) properties = Some property
         \<and> f = buildFormField env provider nm property))"
  using buildFormField_explicit_multiselect [of env provider property nm]
    buildFormField_options_select [of env provider property nm]
    set_buildFormFieldsFromProperties [of f env fieldNames properties provider]
  by (intro conjI impI) simp_all

theorem C5_override_rule_witness:
  "mapPropertyTypeToFormType (getPropertyType sampleEnv pipelineProperty ''hubspot'') = Text
   \<and> ftype (buildFormField sampleEnv ''hubspot'' ''pipeline'' pipelineProperty) = Select
   \<and> ftype (buildFormField sampleEnv ''hubspot'' ''label_ids'' labelsProperty) = Multiselect
   \<and> buildFormField sampleEnv ''hubspot'' ''pipeline'' pipelineProperty
       \<in> set (buildFormFieldsFromProperties sampleEnv [''title'', ''pipeline'']
                [labelsProperty, pipelineProperty] ''hubspot'')"
proof -
  note pipeline = C5_override_rule [of sampleEnv "''hubspot''" pipelineProperty "''pipeline''"
      "buildFormField sampleEnv ''hubspot'' ''pipeline'' pipelineProperty"
      "[''title'', ''pipeline'']" "[labelsProperty, pipelineProperty]"]
  note labels = C5_override_rule [of sampleEnv "''hubspot''" labelsProperty "''label_ids''"
      "buildFormField sampleEnv ''hubspot'' ''label_ids'' labelsProperty"
      "[''label_ids'']" "[labelsProperty]"]
  have a: "mapPropertyTypeToFormType (getPropertyType sampleEnv pipelineProperty ''hubspot'') = Text"
    by (simp add: sampleEnv_def pipelineProperty_def)
  have "\<not> explicitMultiselect sampleEnv ''hubspot'' pipelineProperty
      \<and> nonEmptyOptions (poptions pipelineProperty)"
    by (simp add: explicitMultiselect_def sampleEnv_def pipelineProperty_def)
  with pipeline [THEN conjunct2, THEN conjunct1]
  have b: "ftype (buildFormField sampleEnv ''hubspot'' ''pipeline'' pipelineProperty) = Select"
    by (rule mp)
  have "explicitMultiselect sampleEnv ''hubspot'' labelsProperty"
    by (simp add: explicitMultiselect_def labelsProperty_def)
  with labels [THEN conjunct1]
  have c: "ftype (buildFormField sampleEnv ''hubspot'' ''label_ids'' labelsProperty) = Multiselect"
    by (rule mp)
  have "\<exists>nm property. nm \<in> set [''title'', ''pipeline'']
      \<and> find (\<lambda>p. standardName p = nm) [labelsProperty, pipelineProperty] = Some property
      \<and> buildFormField sampleEnv ''hubspot'' ''pipeline'' pipelineProperty
          = buildFormField sampleEnv ''hubspot'' nm property"
    by (intro exI [of _ "''pipeline''"] exI [of _ pipelineProperty])
      (simp add: labelsProperty_def pipelineProperty_def)
  with pipeline [THEN conjunct2, THEN conjunct2]
  have d: "buildFormField sampleEnv ''hubspot'' ''pipeline'' pipelineProperty
       \<in> set (buildFormFieldsFromProperties sampleEnv [''title'', ''pipeline'']
                [labelsProperty, pipelineProperty] ''hubspot'')"
    by (rule iffD2)
  from a b c d show ?thesis by (intro conjI)
qed

lemma static_path_keeps_no_empty_select:
  "f \<in> set (filter keepField (map (enrichField env props) baseFields)) \<Longrightarrow>
   isSelectType (ftype f) \<Longrightarrow> nonEmptyArray (options f)"
  by (auto simp add: keepField_def)

text \<open>
  C3: the dynamic path has no filter for select and multiselect fields without options.
  For a property of type multiselect that carries no options and no dependency,
  buildFormFieldsFromProperties returns a multiselect field with no options, whatever
  the environment and the provider are; the static path would have hidden such a field.
\<close>

theorem C3_dynamic_path_keeps_empty_multiselect:
  "map (\<lambda>f. (name f, ftype f, options f, dependsOn f))
     (buildFormFieldsFromProperties env [''label_ids''] [labelsProperty] provider)
   = [(''label_ids'', Multiselect, None, None)]"
  by (simp add: buildFormFieldsFromProperties_def map_filter_simps labelsProperty_def
      buildFormField_def sortFieldsByPriority_def hasDependsOn_def isTitleField_def
      titleFieldNames_def toLowerCase_def lowerChar_def Let_def)

text \<open>
  C1: the form component does not read its \<^verbatim>\<open>fieldFilter\<close> prop, so the minimal mode
  gives the same fields as the full mode for every input. For a deal with a provider on
  the static path, the minimal mode shows title, amount and closeDate, where the allow-list
  of minimalFields.ts (title, pipeline, stage) would leave title only.
\<close>

theorem C1_fieldFilter_is_ignored:
  "formFields env provider entityType entity properties Minimal databaseId
     = formFields env provider entityType entity properties All databaseId
   \<and> map name (formFields sampleEnv ''salesforce'' Deal None [] Minimal None)
       = [''title'', ''amount'', ''closeDate'']
   \<and> map name (filter (\<lambda>f. name f \<in> set (MINIMAL_FIELDS Deal))
         (formFields sampleEnv ''salesforce'' Deal None [] All None))
       = [''title'']"
proof (intro conjI)
  show "formFields env provider entityType entity properties Minimal databaseId
     = formFields env provider entityType entity properties All databaseId"
    by (simp add: formFields_def)
  have static: "formFields sampleEnv ''salesforce'' Deal None [] ff None
      = filter keepField (map (enrichField sampleEnv [])
          [staticField Text ''RelationshipModal.Title'' [] ''title'',
           staticField Number ''RelationshipModal.Amount'' ''0'' ''amount'',
           staticField Date ''RelationshipModal.CloseDate'' (nowLocalISO sampleEnv) ''closeDate''])"
    for ff
    by (simp add: formFields_def sampleEnv_def)
  have fields: "map name (filter keepField (map (enrichField sampleEnv [])
          [staticField Text ''RelationshipModal.Title'' [] ''title'',
           staticField Number ''RelationshipModal.Amount'' ''0'' ''amount'',
           staticField Date ''RelationshipModal.CloseDate'' (nowLocalISO sampleEnv) ''closeDate'']))
      = [''title'', ''amount'', ''closeDate'']"
    by (simp add: keepField_def enrichField_def isSelectType_def staticField_def)
  show "map name (formFields sampleEnv ''salesforce'' Deal None [] Minimal None)
       = [''title'', ''amount'', ''closeDate'']"
    by (simp only: static fields)
  show "map name (filter (\<lambda>f. name f \<in> set (MINIMAL_FIELDS Deal))
         (formFields sampleEnv ''salesforce'' Deal None [] All None))
       = [''title'']"
    unfolding static
    by (simp add: keepField_def enrichField_def isSelectType_def staticField_def)
qed

section \<open>Properties of parseRemindAt\<close>

lemma isDigit_digit_char: "d < 10 \<Longrightarrow> isDigit (digit_char d)"
  by (simp add: isDigit_def digit_char_def)

lemma digitValue_digit_char: "d < 10 \<Longrightarrow> digitValue (digit_char d) = d"
  by (simp add: digitValue_def digit_char_def)

lemma dec_nat_not_Nil: "dec_nat n \<noteq> []"
  by (subst dec_nat.simps) simp

lemma dec_nat_digits: "\<forall>c \<in> set (dec_nat n). isDigit c"
proof (induction n rule: dec_nat.induct)
  case (1 n)
  show ?case
  proof (cases "n < 10")
    case True
    then show ?thesis by (subst dec_nat.simps) (simp add: isDigit_digit_char)
  next
    case False
    with 1 show ?thesis by (subst dec_nat.simps) (simp add: isDigit_digit_char)
  qed
qed

lemma parseInt_dec_nat: "parseInt (dec_nat n) = int n"
proof -
  have "foldl (\<lambda>a c. 10 * a + digitValue c) 0 (dec_nat n) = n"
  proof (induction n rule: dec_nat.induct)
    case (1 n)
    show ?case
    proof (cases "n < 10")
      case True
      then show ?thesis by (subst dec_nat.simps) (simp add: digitValue_digit_char)
    next
      case False
      with 1 show ?thesis by (subst dec_nat.simps) (simp add: digitValue_digit_char)
    qed
  qed
  then show ?thesis by (simp add: parseInt_def)
qed

lemma digit_not_space: "isDigit c \<Longrightarrow> \<not> isWhiteSpace c"
  by (auto simp add: isDigit_def isWhiteSpace_def)

lemma lowerChar_digit: "isDigit c \<Longrightarrow> lowerChar c = c"
  by (simp add: isDigit_def lowerChar_def Let_def)

lemma toLowerCase_digits: "\<forall>c \<in> set ds. isDigit c \<Longrightarrow> toLowerCase ds = ds"
  by (induction ds) (simp_all add: toLowerCase_def lowerChar_digit)

lemma toLowerCase_append: "toLowerCase (xs @ ys) = toLowerCase xs @ toLowerCase ys"
  by (simp add: toLowerCase_def)

lemma trim_id: "s \<noteq> [] \<Longrightarrow> \<not> isWhiteSpace (hd s) \<Longrightarrow> \<not> isWhiteSpace (last s) \<Longrightarrow> trim s = s"
proof -
  assume s: "s \<noteq> []" and h: "\<not> isWhiteSpace (hd s)" and l: "\<not> isWhiteSpace (last s)"
  from s h have 1: "dropWhile isWhiteSpace s = s"
    by (cases s) simp_all
  from s l have 2: "dropWhile isWhiteSpace (rev s) = rev s"
    by (cases "rev s") (simp_all add: last_rev [symmetric] hd_rev)
  show ?thesis by (simp add: trim_def 1 2)
qed

lemma spaces_before_digits:
  assumes "ds \<noteq> []" and "\<forall>c \<in> set ds. isDigit c"
  shows "takeWhile isWhiteSpace (ds @ r) = []" and "dropWhile isWhiteSpace (ds @ r) = ds @ r"
  using assms by (cases ds; simp add: digit_not_space)+

lemma digits_before_space:
  assumes "\<forall>c \<in> set ds. isDigit c"
  shows "takeWhile isDigit (ds @ CHR '' '' # r) = ds" and "dropWhile isDigit (ds @ CHR '' '' # r) = CHR '' '' # r"
  using assms by (simp_all add: takeWhile_append2 dropWhile_append2 isDigit_def)

lemma inMatch_in:
  assumes ds: "ds \<noteq> []" "\<forall>c \<in> set ds. isDigit c"
    and r: "r \<noteq> []" "\<not> isWhiteSpace (hd r)" "unitOf r = Some u"
  shows "inMatch (''in '' @ ds @ '' '' @ r) = Some (ds, u)"
proof -
  have sp: "isWhiteSpace CHR '' ''"
    by (simp add: isWhiteSpace_def)
  have nd: "\<not> isDigit CHR '' ''"
    by (simp add: isDigit_def)
  from r have dr: "dropWhile isWhiteSpace r = r"
    by (cases r) simp_all
  show ?thesis
    using ds r
    by (simp add: inMatch_def Let_def sp nd spaces_before_digits digits_before_space dr)
qed

lemma hyphen_not_digit: "\<forall>c \<in> set ds. isDigit c \<Longrightarrow> CHR ''-'' \<notin> set ds"
  by (auto simp add: isDigit_def)

lemma parseRemindAt_in:
  assumes ds: "ds \<noteq> []" "\<forall>c \<in> set ds. isDigit c"
    and r: "r \<noteq> []" "\<not> isWhiteSpace (hd r)" "\<not> isWhiteSpace (last r)" "toLowerCase r = r"
      "CHR ''-'' \<notin> set r" "unitOf r = Some u"
  shows "parseRemindAt clock (''in '' @ ds @ '' '' @ r)
       = Some (TimeClip (now clock + parseInt ds * unitMs u))"
proof -
  have nohyphen: "CHR ''-'' \<notin> set (''in '' @ ds @ '' '' @ r)"
    using hyphen_not_digit [OF ds(2)] r(5) by simp
  have low: "toLowerCase (''in '' @ ds @ '' '' @ r) = ''in '' @ ds @ '' '' @ r"
    by (simp only: toLowerCase_append toLowerCase_digits [OF ds(2)] r(4))
      (simp add: toLowerCase_def lowerChar_def)
  have "last (''in '' @ ds @ '' '' @ r) = last r"
    using r(1) by simp
  then have tr: "trim (''in '' @ ds @ '' '' @ r) = ''in '' @ ds @ '' '' @ r"
    using r(3) by (intro trim_id) (simp_all add: isWhiteSpace_def)
  show ?thesis
    unfolding parseRemindAt_def
    using nohyphen by (simp only: low tr inMatch_in [OF ds r(1,2,6)] Let_def) simp
qed

text \<open>
  C6, as stated, fails for large N: the sum leaves the range of time values and the
  resolver returns an invalid date, not \<open>now + N \<times> d\<close>.
\<close>

theorem C6_counterexample:
  "parseRemindAt utcClock ''in 100000000000000 weeks'' = Some InvalidDate
   \<and> parseRemindAt utcClock ''in 100000000000000 weeks''
       \<noteq> Some (TimeValue (now utcClock + 100000000000000 * 604800000))"
proof -
  have "parseRemindAt utcClock (''in '' @ ''100000000000000'' @ '' '' @ ''weeks'')
      = Some (TimeClip (now utcClock + parseInt ''100000000000000'' * unitMs ''week''))"
    by (rule parseRemindAt_in)
      (simp_all add: isDigit_def isWhiteSpace_def toLowerCase_def lowerChar_def unitOf_def)
  then show ?thesis
    by (simp add: parseInt_def digitValue_def unitMs_def TimeClip_def utcClock_def)
qed

text \<open>
  C6 (amended): for every integer N \<ge> 0, every unit among minute, hour, day and week,
  written in the singular or with a plural s, and every reference time now: if
  now + N \<times> d lies in the range of time values (at most 8640000000000000 ms from the epoch
  on either side), resolving "in N unit" returns exactly now + N \<times> d, where d is 60
  seconds for minute, 3600 for hour, 86400 for day and 604800 for week, in milliseconds;
  if now + N \<times> d lies beyond that range, the result is an invalid date.
\<close>

theorem C6_relative_offset:
  assumes "u \<in> {''minute'', ''hour'', ''day'', ''week''}"
    and "w = u \<or> w = u @ ''s''"
  shows "(\<bar>now clock + int N * unitMs u\<bar> \<le> 8640000000000000 \<longrightarrow>
            parseRemindAt clock (''in '' @ dec_nat N @ '' '' @ w)
              = Some (TimeValue (now clock + int N * unitMs u)))
       \<and> (8640000000000000 < \<bar>now clock + int N * unitMs u\<bar> \<longrightarrow>
            parseRemindAt clock (''in '' @ dec_nat N @ '' '' @ w) = Some InvalidDate)
       \<and> unitMs ''minute'' = 60 * 1000 \<and> unitMs ''hour'' = 3600 * 1000
       \<and> unitMs ''day'' = 86400 * 1000 \<and> unitMs ''week'' = 604800 * 1000"
proof -
  have w: "w \<noteq> [] \<and> \<not> isWhiteSpace (hd w) \<and> \<not> isWhiteSpace (last w) \<and> toLowerCase w = w
      \<and> CHR ''-'' \<notin> set w \<and> unitOf w = Some u"
    using assms(1,2)
    by (elim insertE disjE emptyE)
      (simp_all add: isWhiteSpace_def toLowerCase_def lowerChar_def unitOf_def)
  have "parseRemindAt clock (''in '' @ dec_nat N @ '' '' @ w)
      = Some (TimeClip (now clock + parseInt (dec_nat N) * unitMs u))"
    using w by (intro parseRemindAt_in dec_nat_not_Nil dec_nat_digits) simp_all
  then have res: "parseRemindAt clock (''in '' @ dec_nat N @ '' '' @ w)
      = Some (TimeClip (now clock + int N * unitMs u))"
    by (simp add: parseInt_dec_nat)
  show ?thesis
  proof (intro conjI impI)
    show "parseRemindAt clock (''in '' @ dec_nat N @ '' '' @ w)
        = Some (TimeValue (now clock + int N * unitMs u))"
      if "\<bar>now clock + int N * unitMs u\<bar> \<le> 8640000000000000"
      unfolding res using that by (simp add: TimeClip_def)
    show "parseRemindAt clock (''in '' @ dec_nat N @ '' '' @ w) = Some InvalidDate"
      if "8640000000000000 < \<bar>now clock + int N * unitMs u\<bar>"
      unfolding res using that by (simp add: TimeClip_def)
  qed (simp_all add: unitMs_def)
qed

theorem C6_relative_offset_witness:
  "parseRemindAt utcClock ''in 2 hours'' = Some (TimeValue 1704074400000)
   \<and> parseRemindAt utcClock ''in 0 minute'' = Some (TimeValue 1704067200000)
   \<and> parseRemindAt utcClock ''in 20000000 weeks'' = Some InvalidDate"
proof -
  have d2: "dec_nat 2 = ''2''" and d0: "dec_nat 0 = ''0''"
    and dw: "dec_nat 20000000 = ''20000000''"
    by (simp_all add: dec_nat.simps digit_char_def char_of_def bit_simps)
  have hu: "''hour'' \<in> {''minute'', ''hour'', ''day'', ''week''}"
    and hw: "''hours'' = ''hour'' \<or> ''hours'' = ''hour'' @ ''s''"
    by simp_all
  have "\<bar>now utcClock + int 2 * unitMs ''hour''\<bar> \<le> 8640000000000000"
    by (simp add: utcClock_def unitMs_def)
  with C6_relative_offset [OF hu hw, of utcClock 2, THEN conjunct1]
  have "parseRemindAt utcClock (''in '' @ dec_nat 2 @ '' '' @ ''hours'')
      = Some (TimeValue (now utcClock + int 2 * unitMs ''hour''))"
    by (rule mp)
  then have a: "parseRemindAt utcClock ''in 2 hours'' = Some (TimeValue 1704074400000)"
    by (simp add: d2 utcClock_def unitMs_def)
  have mu: "''minute'' \<in> {''minute'', ''hour'', ''day'', ''week''}"
    and mw: "''minute'' = ''minute'' \<or> ''minute'' = ''minute'' @ ''s''"
    by simp_all
  have "\<bar>now utcClock + int 0 * unitMs ''minute''\<bar> \<le> 8640000000000000"
    by (simp add: utcClock_def unitMs_def)
  with C6_relative_offset [OF mu mw, of utcClock 0, THEN conjunct1]
  have "parseRemindAt utcClock (''in '' @ dec_nat 0 @ '' '' @ ''minute'')
      = Some (TimeValue (now utcClock + int 0 * unitMs ''minute''))"
    by (rule mp)
  then have b: "parseRemindAt utcClock ''in 0 minute'' = Some (TimeValue 1704067200000)"
    by (simp add: d0 utcClock_def unitMs_def)
  have wu: "''week'' \<in> {''minute'', ''hour'', ''day'', ''week''}"
    and ww: "''weeks'' = ''week'' \<or> ''weeks'' = ''week'' @ ''s''"
    by simp_all
  have "8640000000000000 < \<bar>now utcClock + int 20000000 * unitMs ''week''\<bar>"
    by (simp add: utcClock_def unitMs_def)
  with C6_relative_offset [OF wu ww, of utcClock 20000000, THEN conjunct2, THEN conjunct1]
  have "parseRemindAt utcClock (''in '' @ dec_nat 20000000 @ '' '' @ ''weeks'') = Some InvalidDate"
    by (rule mp)
  then have c: "parseRemindAt utcClock ''in 20000000 weeks'' = Some InvalidDate"
    by (simp add: dw)
  from a b c show ?thesis by (intro conjI)
qed



lemma Day_MakeDate:
  assumes "0 \<le> t" and "t < msPerDay"
  shows "Day (MakeDate d t) = d" and "TimeWithinDay (MakeDate d t) = t"
  using assms by (simp_all add: Day_def TimeWithinDay_def MakeDate_def msPerDay_def)

lemma setHours_TimeValue:
  "setHours z h m (TimeValue tv) = atLocal z (Day (LocalTime z tv)) h m"
  by (simp add: setHours_def atLocal_def)

lemma atLocal_reading:
  assumes "atLocal z d h m = TimeValue tv"
    and "LocalTime z (UTC z (MakeDate d (MakeTime h m 0 0))) = MakeDate d (MakeTime h m 0 0)"
    and "0 \<le> h" and "0 \<le> m" and "h * 60 + m < 1440"
  shows "Day (LocalTime z tv) = d \<and> TimeWithinDay (LocalTime z tv) = MakeTime h m 0 0"
proof -
  from assms(1) have tv: "tv = UTC z (MakeDate d (MakeTime h m 0 0))"
    by (simp add: atLocal_def TimeClip_def split: if_splits)
  have "0 \<le> MakeTime h m 0 0" and "MakeTime h m 0 0 < msPerDay"
    using assms(3-5) by (simp_all add: MakeTime_def msPerDay_def)
  then show ?thesis
    by (simp add: tv assms(2) Day_MakeDate)
qed

lemma fixedZone_regular: "LocalTime (fixedZone off) (UTC (fixedZone off) x) = x"
  by (simp add: LocalTime_def UTC_def fixedZone_def)

lemma clockAt_5pm:
  "clockAt ''5pm'' = \<lparr>hoursGroup = ''5'', minutesGroup = None, ampmGroup = Some ''pm'', rest = []\<rparr>"
  by (simp add: clockAt_def takeHours_def takeMinutes_def takeAmPm_def isDigit_def isWhiteSpace_def)

lemma clockAt_5:
  "clockAt ''5'' = \<lparr>hoursGroup = ''5'', minutesGroup = None, ampmGroup = None, rest = []\<rparr>"
  by (simp add: clockAt_def takeHours_def takeMinutes_def takeAmPm_def)

lemma todayMatch_5pm:
  "todayMatch ''5pm''
     = Some \<lparr>hoursGroup = ''5'', minutesGroup = None, ampmGroup = Some ''pm'', rest = []\<rparr>"
  by (simp add: todayMatch_def skipWord_def clockAt_5pm) (simp add: isDigit_def)

lemma todayMatch_today_at_5:
  "todayMatch ''today at 5''
     = Some \<lparr>hoursGroup = ''5'', minutesGroup = None, ampmGroup = None, rest = []\<rparr>"
  by (simp add: todayMatch_def skipWord_def isWhiteSpace_def clockAt_5) (simp add: isDigit_def)

lemma todayMatch_today_at_5pm:
  "todayMatch ''today at 5pm''
     = Some \<lparr>hoursGroup = ''5'', minutesGroup = None, ampmGroup = Some ''pm'', rest = []\<rparr>"
  by (simp add: todayMatch_def skipWord_def isWhiteSpace_def clockAt_5pm) (simp add: isDigit_def)

lemma parseRemindAt_today:
  assumes "CHR ''-'' \<notin> set input"
    and "trim (toLowerCase input) = lower"
    and "stripPrefix ''in'' lower = None" and "stripPrefix ''tomorrow'' lower = None"
    and "todayMatch lower = Some m"
  shows "parseRemindAt clock input
       = Some (atLocal (zone clock) (Day (LocalTime (zone clock) (now clock))) (hoursOf m) (minutesOf m))"
  using assms by (simp add: parseRemindAt_def inMatch_def setHours_TimeValue)

lemma lower_5pm: "trim (toLowerCase ''5pm'') = ''5pm''"
  by (simp add: toLowerCase_def lowerChar_def trim_def isWhiteSpace_def)

lemma lower_today_at_5: "trim (toLowerCase ''today at 5'') = ''today at 5''"
  by (simp add: toLowerCase_def lowerChar_def trim_def isWhiteSpace_def)

lemma lower_today_at_5pm: "trim (toLowerCase ''today at 5pm'') = ''today at 5pm''"
  by (simp add: toLowerCase_def lowerChar_def trim_def isWhiteSpace_def)

lemma parseRemindAt_5pm:
  "parseRemindAt clock ''5pm''
     = Some (atLocal (zone clock) (Day (LocalTime (zone clock) (now clock))) 17 0)"
proof -
  have "parseRemindAt clock ''5pm''
      = Some (atLocal (zone clock) (Day (LocalTime (zone clock) (now clock)))
          (hoursOf \<lparr>hoursGroup = ''5'', minutesGroup = None, ampmGroup = Some ''pm'', rest = []\<rparr>)
          (minutesOf \<lparr>hoursGroup = ''5'', minutesGroup = None, ampmGroup = Some ''pm'', rest = []\<rparr>))"
    by (rule parseRemindAt_today [OF _ lower_5pm _ _ todayMatch_5pm]) simp_all
  then show ?thesis
    by (simp add: hoursOf_def minutesOf_def parseInt_def digitValue_def)
qed

lemma parseRemindAt_today_at_5:
  "parseRemindAt clock ''today at 5''
     = Some (atLocal (zone clock) (Day (LocalTime (zone clock) (now clock))) 5 0)"
proof -
  have "parseRemindAt clock ''today at 5''
      = Some (atLocal (zone clock) (Day (LocalTime (zone clock) (now clock)))
          (hoursOf \<lparr>hoursGroup = ''5'', minutesGroup = None, ampmGroup = None, rest = []\<rparr>)
          (minutesOf \<lparr>hoursGroup = ''5'', minutesGroup = None, ampmGroup = None, rest = []\<rparr>))"
    by (rule parseRemindAt_today [OF _ lower_today_at_5 _ _ todayMatch_today_at_5]) simp_all
  then show ?thesis
    by (simp add: hoursOf_def minutesOf_def parseInt_def digitValue_def)
qed

lemma parseRemindAt_today_at_5pm:
  "parseRemindAt clock ''today at 5pm''
     = Some (atLocal (zone clock) (Day (LocalTime (zone clock) (now clock))) 17 0)"
proof -
  have "parseRemindAt clock ''today at 5pm''
      = Some (atLocal (zone clock) (Day (LocalTime (zone clock) (now clock)))
          (hoursOf \<lparr>hoursGroup = ''5'', minutesGroup = None, ampmGroup = Some ''pm'', rest = []\<rparr>)
          (minutesOf \<lparr>hoursGroup = ''5'', minutesGroup = None, ampmGroup = Some ''pm'', rest = []\<rparr>))"
    by (rule parseRemindAt_today [OF _ lower_today_at_5pm _ _ todayMatch_today_at_5pm]) simp_all
  then show ?thesis
    by (simp add: hoursOf_def minutesOf_def parseInt_def digitValue_def)
qed

lemma atLocal_march:
  "atLocal (zone marchClock) (Day (LocalTime (zone marchClock) (now marchClock))) h 0
     = TimeClip (1710021600000 + h * 3600000)"
  by (simp add: atLocal_def marchClock_def fixedZone_def LocalTime_def UTC_def Day_def
      MakeDate_def MakeTime_def msPerDay_def)

text \<open>
  C2, as stated, fails: without am or pm the hour is taken as written, so "today at 5"
  is 05:00 and "5pm" is 17:00 of the same day. At 2024-03-10T15:00 local time (UTC+2)
  the two results are 12 hours apart.
\<close>

theorem C2_counterexample:
  "parseRemindAt marchClock ''5pm'' = Some (TimeValue 1710082800000)
   \<and> parseRemindAt marchClock ''today at 5'' = Some (TimeValue 1710039600000)
   \<and> parseRemindAt marchClock ''5pm'' \<noteq> parseRemindAt marchClock ''today at 5''"
  by (simp add: parseRemindAt_5pm parseRemindAt_today_at_5 atLocal_march TimeClip_def)


lemma atLocal_TimeValue:
  "atLocal z d h m = TimeValue tv \<Longrightarrow>
   tv = MakeDate d (MakeTime h m 0 0) - offsetAtLocal z (MakeDate d (MakeTime h m 0 0))"
  by (simp add: atLocal_def TimeClip_def UTC_def split: if_splits)

lemma march_regular:
  "LocalTime (zone marchClock) (UTC (zone marchClock) x) = x"
  by (simp add: marchClock_def fixedZone_regular)

text \<open>
  C2 (amended): for every reference time now, resolving "5pm" returns the date that
  \<^verbatim>\<open>setHours(17, 0, 0, 0)\<close> makes of now, that is TimeClip(UTC(t17)) for the local time
  t17 = 17:00:00.000 on now's local calendar date, and resolving "today at 5" returns
  TimeClip(UTC(t5)) for the local time t5 = 05:00:00.000 on now's local calendar date:
  without am or pm the hour is taken as written. "today at 5pm" resolves to the same
  result as "5pm". When the result for "5pm" is a valid date and the time zone maps the
  local time t17 back to itself, the local calendar date of the result is now's and its
  local time of day is exactly 17:00:00.000; likewise for "today at 5", t5 and
  05:00:00.000. When both results are valid dates and the zone applies the same offset to
  t17 and t5, the result for "5pm" is exactly 12 hours after the result for
  "today at 5". When UTC(t17) lies outside the range of time values, the result for
  "5pm" is an invalid date; likewise for "today at 5" and UTC(t5).
\<close>

theorem C2_clock_time_today:
  assumes "z = zone clock"
    and "t17 = MakeDate (Day (LocalTime z (now clock))) (MakeTime 17 0 0 0)"
    and "t5 = MakeDate (Day (LocalTime z (now clock))) (MakeTime 5 0 0 0)"
  shows "parseRemindAt clock ''5pm''
           = Some (atLocal (zone clock) (Day (LocalTime (zone clock) (now clock))) 17 0)
       \<and> parseRemindAt clock ''today at 5''
           = Some (atLocal (zone clock) (Day (LocalTime (zone clock) (now clock))) 5 0)
       \<and> parseRemindAt clock ''today at 5pm'' = parseRemindAt clock ''5pm''
       \<and> parseRemindAt clock ''5pm'' = Some (TimeClip (UTC z t17))
       \<and> parseRemindAt clock ''today at 5'' = Some (TimeClip (UTC z t5))
       \<and> (parseRemindAt clock ''5pm'' = Some (TimeValue a) \<and> LocalTime z (UTC z t17) = t17
            \<longrightarrow> Day (LocalTime z a) = Day (LocalTime z (now clock))
              \<and> TimeWithinDay (LocalTime z a) = 17 * 3600000)
       \<and> (parseRemindAt clock ''today at 5'' = Some (TimeValue b) \<and> LocalTime z (UTC z t5) = t5
            \<longrightarrow> Day (LocalTime z b) = Day (LocalTime z (now clock))
              \<and> TimeWithinDay (LocalTime z b) = 5 * 3600000)
       \<and> (parseRemindAt clock ''5pm'' = Some (TimeValue a)
            \<and> parseRemindAt clock ''today at 5'' = Some (TimeValue b)
            \<and> offsetAtLocal z t17 = offsetAtLocal z t5
            \<longrightarrow> a - b = 12 * 3600000)
       \<and> (8640000000000000 < \<bar>UTC z t17\<bar> \<longrightarrow> parseRemindAt clock ''5pm'' = Some InvalidDate)
       \<and> (8640000000000000 < \<bar>UTC z t5\<bar> \<longrightarrow>
            parseRemindAt clock ''today at 5'' = Some InvalidDate)"
proof -
  have p17: "parseRemindAt clock ''5pm'' = Some (atLocal z (Day (LocalTime z (now clock))) 17 0)"
    unfolding assms(1) by (rule parseRemindAt_5pm)
  have p5: "parseRemindAt clock ''today at 5'' = Some (atLocal z (Day (LocalTime z (now clock))) 5 0)"
    unfolding assms(1) by (rule parseRemindAt_today_at_5)
  have c1: "parseRemindAt clock ''5pm''
      = Some (atLocal (zone clock) (Day (LocalTime (zone clock) (now clock))) 17 0)"
    by (rule parseRemindAt_5pm)
  have c2: "parseRemindAt clock ''today at 5''
      = Some (atLocal (zone clock) (Day (LocalTime (zone clock) (now clock))) 5 0)"
    by (rule parseRemindAt_today_at_5)
  have c3: "parseRemindAt clock ''today at 5pm'' = parseRemindAt clock ''5pm''"
    by (simp only: parseRemindAt_5pm parseRemindAt_today_at_5pm)
  have c4: "parseRemindAt clock ''5pm'' = Some (TimeClip (UTC z t17))"
    unfolding p17 assms(2) by (simp add: atLocal_def)
  have c5: "parseRemindAt clock ''today at 5'' = Some (TimeClip (UTC z t5))"
    unfolding p5 assms(3) by (simp add: atLocal_def)
  have c6: "Day (LocalTime z a) = Day (LocalTime z (now clock))
      \<and> TimeWithinDay (LocalTime z a) = 17 * 3600000"
    if h: "parseRemindAt clock ''5pm'' = Some (TimeValue a) \<and> LocalTime z (UTC z t17) = t17"
  proof -
    from h have v: "atLocal z (Day (LocalTime z (now clock))) 17 0 = TimeValue a"
      unfolding p17 by simp
    from h have r: "LocalTime z (UTC z (MakeDate (Day (LocalTime z (now clock))) (MakeTime 17 0 0 0)))
        = MakeDate (Day (LocalTime z (now clock))) (MakeTime 17 0 0 0)"
      unfolding assms(2) by simp
    from atLocal_reading [OF v r] show ?thesis
      by (simp add: MakeTime_def)
  qed
  have c7: "Day (LocalTime z b) = Day (LocalTime z (now clock))
      \<and> TimeWithinDay (LocalTime z b) = 5 * 3600000"
    if h: "parseRemindAt clock ''today at 5'' = Some (TimeValue b) \<and> LocalTime z (UTC z t5) = t5"
  proof -
    from h have v: "atLocal z (Day (LocalTime z (now clock))) 5 0 = TimeValue b"
      unfolding p5 by simp
    from h have r: "LocalTime z (UTC z (MakeDate (Day (LocalTime z (now clock))) (MakeTime 5 0 0 0)))
        = MakeDate (Day (LocalTime z (now clock))) (MakeTime 5 0 0 0)"
      unfolding assms(3) by simp
    from atLocal_reading [OF v r] show ?thesis
      by (simp add: MakeTime_def)
  qed
  have c8: "a - b = 12 * 3600000"
    if h: "parseRemindAt clock ''5pm'' = Some (TimeValue a)
        \<and> parseRemindAt clock ''today at 5'' = Some (TimeValue b)
        \<and> offsetAtLocal z t17 = offsetAtLocal z t5"
  proof -
    from h have "atLocal z (Day (LocalTime z (now clock))) 17 0 = TimeValue a"
      unfolding p17 by simp
    then have a: "a = t17 - offsetAtLocal z t17"
      unfolding assms(2) by (rule atLocal_TimeValue)
    from h have "atLocal z (Day (LocalTime z (now clock))) 5 0 = TimeValue b"
      unfolding p5 by simp
    then have b: "b = t5 - offsetAtLocal z t5"
      unfolding assms(3) by (rule atLocal_TimeValue)
    from h have "offsetAtLocal z t17 = offsetAtLocal z t5"
      by simp
    then have "a - b = t17 - t5"
      by (simp add: a b)
    then show ?thesis
      by (simp add: assms(2,3) MakeDate_def MakeTime_def)
  qed
  have c9: "parseRemindAt clock ''5pm'' = Some InvalidDate"
    if "8640000000000000 < \<bar>UTC z t17\<bar>"
    using that unfolding c4 by (simp add: TimeClip_def)
  have c10: "parseRemindAt clock ''today at 5'' = Some InvalidDate"
    if "8640000000000000 < \<bar>UTC z t5\<bar>"
    using that unfolding c5 by (simp add: TimeClip_def)
  note i6 = impI [OF c6] and i7 = impI [OF c7] and i8 = impI [OF c8]
    and i9 = impI [OF c9] and i10 = impI [OF c10]
  from c1 c2 c3 c4 c5 i6 i7 i8 i9 i10 show ?thesis
    by (intro conjI)
qed

theorem C2_clock_time_today_witness:
  "parseRemindAt marchClock ''5pm'' = Some (TimeValue 1710082800000)
   \<and> parseRemindAt marchClock ''today at 5'' = Some (TimeValue 1710039600000)
   \<and> Day (LocalTime (zone marchClock) 1710082800000) = Day (LocalTime (zone marchClock) (now marchClock))
   \<and> TimeWithinDay (LocalTime (zone marchClock) 1710082800000) = 17 * 3600000
   \<and> Day (LocalTime (zone marchClock) 1710039600000) = Day (LocalTime (zone marchClock) (now marchClock))
   \<and> TimeWithinDay (LocalTime (zone marchClock) 1710039600000) = 5 * 3600000
   \<and> (1710082800000 :: int) - 1710039600000 = 12 * 3600000
   \<and> parseRemindAt edgeClock ''5pm'' = Some InvalidDate"
proof -
  note march = C2_clock_time_today [OF refl refl refl, of marchClock 1710082800000 1710039600000]
  note edge = C2_clock_time_today [OF refl refl refl, of edgeClock 0 0]
  note m4 = march [THEN conjunct2, THEN conjunct2, THEN conjunct2]
  note m6 = m4 [THEN conjunct2, THEN conjunct2]
  have t17: "UTC (zone marchClock)
      (MakeDate (Day (LocalTime (zone marchClock) (now marchClock))) (MakeTime 17 0 0 0))
      = 1710082800000"
    and t5: "UTC (zone marchClock)
      (MakeDate (Day (LocalTime (zone marchClock) (now marchClock))) (MakeTime 5 0 0 0))
      = 1710039600000"
    by (simp_all add: marchClock_def fixedZone_def LocalTime_def UTC_def Day_def MakeDate_def
        MakeTime_def msPerDay_def)
  have a: "parseRemindAt marchClock ''5pm'' = Some (TimeValue 1710082800000)"
    using m4 [THEN conjunct1] by (simp add: t17 TimeClip_def)
  have b: "parseRemindAt marchClock ''today at 5'' = Some (TimeValue 1710039600000)"
    using m4 [THEN conjunct2, THEN conjunct1] by (simp add: t5 TimeClip_def)
  have "parseRemindAt marchClock ''5pm'' = Some (TimeValue 1710082800000)
      \<and> LocalTime (zone marchClock) (UTC (zone marchClock)
            (MakeDate (Day (LocalTime (zone marchClock) (now marchClock))) (MakeTime 17 0 0 0)))
          = MakeDate (Day (LocalTime (zone marchClock) (now marchClock))) (MakeTime 17 0 0 0)"
    using a by (simp add: march_regular)
  with m6 [THEN conjunct1]
  have c: "Day (LocalTime (zone marchClock) 1710082800000)
        = Day (LocalTime (zone marchClock) (now marchClock))
      \<and> TimeWithinDay (LocalTime (zone marchClock) 1710082800000) = 17 * 3600000"
    by (rule mp)
  have "parseRemindAt marchClock ''today at 5'' = Some (TimeValue 1710039600000)
      \<and> LocalTime (zone marchClock) (UTC (zone marchClock)
            (MakeDate (Day (LocalTime (zone marchClock) (now marchClock))) (MakeTime 5 0 0 0)))
          = MakeDate (Day (LocalTime (zone marchClock) (now marchClock))) (MakeTime 5 0 0 0)"
    using b by (simp add: march_regular)
  with m6 [THEN conjunct2, THEN conjunct1]
  have d: "Day (LocalTime (zone marchClock) 1710039600000)
        = Day (LocalTime (zone marchClock) (now marchClock))
      \<and> TimeWithinDay (LocalTime (zone marchClock) 1710039600000) = 5 * 3600000"
    by (rule mp)
  have "parseRemindAt marchClock ''5pm'' = Some (TimeValue 1710082800000)
      \<and> parseRemindAt marchClock ''today at 5'' = Some (TimeValue 1710039600000)
      \<and> offsetAtLocal (zone marchClock)
            (MakeDate (Day (LocalTime (zone marchClock) (now marchClock))) (MakeTime 17 0 0 0))
          = offsetAtLocal (zone marchClock)
            (MakeDate (Day (LocalTime (zone marchClock) (now marchClock))) (MakeTime 5 0 0 0))"
    using a b by (simp add: marchClock_def fixedZone_def)
  with m6 [THEN conjunct2, THEN conjunct2, THEN conjunct1]
  have e: "(1710082800000 :: int) - 1710039600000 = 12 * 3600000"
    by (rule mp)
  have "8640000000000000 < \<bar>UTC (zone edgeClock)
      (MakeDate (Day (LocalTime (zone edgeClock) (now edgeClock))) (MakeTime 17 0 0 0))\<bar>"
    by (simp add: edgeClock_def fixedZone_def LocalTime_def UTC_def Day_def MakeDate_def
        MakeTime_def msPerDay_def)
  with edge [THEN conjunct2, THEN conjunct2, THEN conjunct2, THEN conjunct2, THEN conjunct2,
      THEN conjunct2, THEN conjunct2, THEN conjunct2, THEN conjunct1]
  have f: "parseRemindAt edgeClock ''5pm'' = Some InvalidDate"
    by (rule mp)
  from a b c d e f show ?thesis
    by (intro conjI) simp_all
qed


























section \<open>Properties of the reminder executors\<close>

lemma parseRemindAt_empty: "parseRemindAt clock [] = None"
  by (simp add: parseRemindAt_def toLowerCase_def trim_def inMatch_def todayMatch_def skipWord_def)

lemma parseRemindAt_not_a_time: "parseRemindAt clock ''not a time'' = None"
  by (simp add: parseRemindAt_def toLowerCase_def lowerChar_def trim_def isWhiteSpace_def
      inMatch_def todayMatch_def skipWord_def isDigit_def)

lemma executeUpdateReminder_empty:
  "executeUpdateReminder clock api (args\<lparr>remindAt := Some []\<rparr>) w
     = (let updateData = \<lparr>upd_description =
                (if truthyString (description args) then description args else None),
              upd_remind_at = None\<rparr>;
            request = UpdateReminderCall (reminderId args) updateData;
            w1 = w\<lparr>apiCalls := apiCalls w @ [request]\<rparr>
        in case api request of
             Fulfilled r \<Rightarrow>
               (Inr (Succeeded (Updated (reminderId args) updateData)),
                w1\<lparr>reminderReloads := reminderReloads w1 + 1\<rparr>)
           | outcome \<Rightarrow>
               (Inr (Failed (''Failed to update reminder: '' @ errorMessage outcome)), w1))"
  by (simp add: executeUpdateReminder_def Let_def split: ApiOutcome.splits)

text \<open>
  C8, as stated, fails for the update executor on the empty string: the resolver returns
  Unparseable on it, but the executor treats an empty \<^verbatim>\<open>remindAt\<close> as absent, does not
  call the resolver and sends the update to the reminder API.
\<close>

theorem C8_counterexample:
  "parseRemindAt marchClock [] = None
   \<and> executeUpdateReminder marchClock (\<lambda>request. Fulfilled 7)
       (sampleArgs\<lparr>remindAt := Some []\<rparr>) sampleWorld
     = (Inr (Succeeded (Updated 7 \<lparr>upd_description = Some ''call Bob'', upd_remind_at = None\<rparr>)),
        \<lparr>apiCalls = [UpdateReminderCall 7
             \<lparr>upd_description = Some ''call Bob'', upd_remind_at = None\<rparr>],
         reminderReloads = 1, currentOrganizationId = Some 1\<rparr>)"
  by (simp only: parseRemindAt_empty executeUpdateReminder_empty)
    (simp add: sampleArgs_def sampleWorld_def Let_def)

text \<open>
  C8 (amended): for every input string on which the resolver returns Unparseable,
  executeCreateReminder returns, without throwing, the failure result whose message is
  "Could not parse reminder time: " followed by the raw string, and leaves the outside
  state as it was: no request to the reminder API, no action dispatched. So does
  executeUpdateReminder when the string is not empty. An empty \<^verbatim>\<open>remindAt\<close> counts as
  absent for executeUpdateReminder: the resolver is not called and the update request is
  sent to the reminder API with the other changes.
\<close>

theorem C8_unparseable_aborts:
  assumes "parseRemindAt clock input = None"
  shows "executeCreateReminder clock api (args\<lparr>remindAt := Some input\<rparr>) w
           = (Inr (Failed (''Could not parse reminder time: '' @ input)), w)
       \<and> (input \<noteq> [] \<longrightarrow>
            executeUpdateReminder clock api (args\<lparr>remindAt := Some input\<rparr>) w
              = (Inr (Failed (''Could not parse reminder time: '' @ input)), w))
       \<and> (input = [] \<longrightarrow>
            apiCalls (snd (executeUpdateReminder clock api (args\<lparr>remindAt := Some input\<rparr>) w))
              = apiCalls w @ [UpdateReminderCall (reminderId args)
                  \<lparr>upd_description =
                     (if truthyString (description args) then description args else None),
                   upd_remind_at = None\<rparr>])"
proof (intro conjI impI)
  show "executeCreateReminder clock api (args\<lparr>remindAt := Some input\<rparr>) w
      = (Inr (Failed (''Could not parse reminder time: '' @ input)), w)"
    using assms by (simp add: executeCreateReminder_def)
  show "executeUpdateReminder clock api (args\<lparr>remindAt := Some input\<rparr>) w
      = (Inr (Failed (''Could not parse reminder time: '' @ input)), w)"
    if "input \<noteq> []"
    using assms that by (simp add: executeUpdateReminder_def Let_def)
  show "apiCalls (snd (executeUpdateReminder clock api (args\<lparr>remindAt := Some input\<rparr>) w))
      = apiCalls w @ [UpdateReminderCall (reminderId args)
          \<lparr>upd_description = (if truthyString (description args) then description args else None),
           upd_remind_at = None\<rparr>]"
    if "input = []"
    unfolding that executeUpdateReminder_empty
    by (simp add: Let_def split: ApiOutcome.splits)
qed

theorem C8_unparseable_aborts_witness:
  "parseRemindAt marchClock ''not a time'' = None
   \<and> executeCreateReminder marchClock (\<lambda>request. Fulfilled 7)
       (sampleArgs\<lparr>remindAt := Some ''not a time''\<rparr>) sampleWorld
     = (Inr (Failed ''Could not parse reminder time: not a time''), sampleWorld)
   \<and> executeUpdateReminder marchClock (\<lambda>request. Fulfilled 7)
       (sampleArgs\<lparr>remindAt := Some ''not a time''\<rparr>) sampleWorld
     = (Inr (Failed ''Could not parse reminder time: not a time''), sampleWorld)"
proof -
  have un: "parseRemindAt marchClock ''not a time'' = None"
    by (rule parseRemindAt_not_a_time)
  note inst = C8_unparseable_aborts [OF un, of "\<lambda>request. Fulfilled 7" sampleArgs sampleWorld]
  have a: "executeCreateReminder marchClock (\<lambda>request. Fulfilled 7)
       (sampleArgs\<lparr>remindAt := Some ''not a time''\<rparr>) sampleWorld
     = (Inr (Failed ''Could not parse reminder time: not a time''), sampleWorld)"
    using inst [THEN conjunct1] by simp
  have "''not a time'' \<noteq> []"
    by simp
  with inst [THEN conjunct2, THEN conjunct1]
  have "executeUpdateReminder marchClock (\<lambda>request. Fulfilled 7)
       (sampleArgs\<lparr>remindAt := Some ''not a time''\<rparr>) sampleWorld
     = (Inr (Failed (''Could not parse reminder time: '' @ ''not a time'')), sampleWorld)"
    by (rule mp)
  then have b: "executeUpdateReminder marchClock (\<lambda>request. Fulfilled 7)
       (sampleArgs\<lparr>remindAt := Some ''not a time''\<rparr>) sampleWorld
     = (Inr (Failed ''Could not parse reminder time: not a time''), sampleWorld)"
    by simp
  from un a b show ?thesis by (intro conjI)
qed

end
